theory Spec2Isabelle
  imports Main "HOL-Library.Log_Nat" "HOL-Library.Sublist"
begin

section \<open>Python floats (IEEE 754 binary64)\<close>

text \<open>
  A Python float is a binary64 value: a finite number, one of the two infinities, or NaN.
  A finite value is carried as the rational it denotes (the two zeros are not told apart:
  no operation used here can see the sign of zero). Every arithmetic result is rounded to
  the nearest representable value, ties to the even significand, by \<open>rnd\<close>.
\<close>

datatype pyfloat = Fin rat | PInf | NInf | NaN

definition round_half_even :: "rat \<Rightarrow> int" where
  "round_half_even x =
     (let f = \<lfloor>x\<rfloor>; d = x - of_int f
      in if d < 1 / 2 then f else if 1 / 2 < d then f + 1 else if even f then f else f + 1)"

definition ilog2 :: "rat \<Rightarrow> int" where
  \<comment> \<open>the binary exponent of a positive rational: \<open>2 ^ e \<le> x < 2 ^ (e + 1)\<close>\<close>
  "ilog2 x =
     (case quotient_of x of (p, q) \<Rightarrow>
        let d = bitlen p - bitlen q in if 2 powi d \<le> x then d else d - 1)"

definition rnd :: "rat \<Rightarrow> pyfloat" where
  \<comment> \<open>round to nearest binary64, ties to even: 53 significant bits, least exponent -1022
      (below it the spacing stays \<open>2 ^ -1074\<close>), overflow to infinity from \<open>2 ^ 1024\<close>\<close>
  "rnd x =
     (if x = 0 then Fin 0
      else let e = max (ilog2 \<bar>x\<bar>) (- 1022);
               q = 2 powi (e - 52);
               r = of_int (round_half_even (x / q)) * q
           in if 2 powi 1024 \<le> \<bar>r\<bar> then (if 0 < x then PInf else NInf) else Fin r)"

text \<open>Comparison: every comparison with NaN is false.\<close>

fun flt :: "pyfloat \<Rightarrow> pyfloat \<Rightarrow> bool" where
  "flt (Fin x) (Fin y) = (x < y)"
| "flt (Fin x) PInf = True"
| "flt NInf (Fin y) = True"
| "flt NInf PInf = True"
| "flt a b = False"

fun fle :: "pyfloat \<Rightarrow> pyfloat \<Rightarrow> bool" where
  "fle (Fin x) (Fin y) = (x \<le> y)"
| "fle (Fin x) PInf = True"
| "fle NInf (Fin y) = True"
| "fle NInf PInf = True"
| "fle PInf PInf = True"
| "fle NInf NInf = True"
| "fle a b = False"

definition fgt :: "pyfloat \<Rightarrow> pyfloat \<Rightarrow> bool" where
  "fgt a b = flt b a"

definition fge :: "pyfloat \<Rightarrow> pyfloat \<Rightarrow> bool" where
  "fge a b = fle b a"

text \<open>Addition and division by the integer 2 (converted to 2.0); neither raises.\<close>

fun fadd :: "pyfloat \<Rightarrow> pyfloat \<Rightarrow> pyfloat" where
  "fadd (Fin x) (Fin y) = rnd (x + y)"
| "fadd NaN b = NaN"
| "fadd a NaN = NaN"
| "fadd PInf NInf = NaN"
| "fadd NInf PInf = NaN"
| "fadd PInf b = PInf"
| "fadd a PInf = PInf"
| "fadd NInf b = NInf"
| "fadd a NInf = NInf"

fun fdiv2 :: "pyfloat \<Rightarrow> pyfloat" where
  "fdiv2 (Fin x) = rnd (x / 2)"
| "fdiv2 a = a"

text \<open>
  The builtins \<open>min(a, b)\<close> and \<open>max(a, b)\<close> keep the first argument unless the second is
  strictly smaller (larger).
\<close>

definition py_min :: "pyfloat \<Rightarrow> pyfloat \<Rightarrow> pyfloat" where
  "py_min a b = (if flt b a then b else a)"

definition py_max :: "pyfloat \<Rightarrow> pyfloat \<Rightarrow> pyfloat" where
  "py_max a b = (if flt a b then b else a)"

text \<open>
  \<open>round(x, 2)\<close>: infinities and NaN round to themselves; a finite value is rounded, as the
  exact number it is, to the nearest multiple of 1/100 (ties to the even multiple), and the
  decimal result is converted back to the nearest float.
\<close>

fun py_round2 :: "pyfloat \<Rightarrow> pyfloat" where
  "py_round2 (Fin x) = rnd (of_int (round_half_even (x * 100)) / 100)"
| "py_round2 a = a"

text \<open>A decimal literal of the source denotes the float nearest to it.\<close>

definition lit :: "rat \<Rightarrow> pyfloat" where
  "lit x = rnd x"

section \<open>Strings\<close>

text \<open>
  A string is a list of code points below 256. \<open>str.lower\<close> maps the capital letters of
  that range (A to Z, and U+00C0 to U+00DE without the multiplication sign U+00D7) 32
  places up and leaves every other code point alone.
\<close>

definition lower_char :: "char \<Rightarrow> char" where
  "lower_char c =
     (let n = (of_char c :: nat)
      in if (65 \<le> n \<and> n \<le> 90) \<or> (192 \<le> n \<and> n \<le> 222 \<and> n \<noteq> 215)
         then char_of (n + 32) else c)"

definition lower :: "string \<Rightarrow> string" where
  "lower s = map lower_char s"

section \<open>Constants (core/constants.py)\<close>

datatype Severity = INFO | LOW | MEDIUM | HIGH | CRITICAL

fun Severity_value :: "Severity \<Rightarrow> string" where
  "Severity_value INFO = ''info''"
| "Severity_value LOW = ''low''"
| "Severity_value MEDIUM = ''medium''"
| "Severity_value HIGH = ''high''"
| "Severity_value CRITICAL = ''critical''"

datatype EventType =
  SUSPICIOUS_PROCESS | NETWORK_ANOMALY | FILE_CHANGE | HIGH_RESOURCE
  | PORT_SCAN | BRUTE_FORCE | USB_DEVICE

fun EventType_value :: "EventType \<Rightarrow> string" where
  "EventType_value SUSPICIOUS_PROCESS = ''suspicious_process''"
| "EventType_value NETWORK_ANOMALY = ''network_anomaly''"
| "EventType_value FILE_CHANGE = ''file_change''"
| "EventType_value HIGH_RESOURCE = ''high_resource''"
| "EventType_value PORT_SCAN = ''port_scan''"
| "EventType_value BRUTE_FORCE = ''brute_force''"
| "EventType_value USB_DEVICE = ''usb_device''"

definition SUSPICIOUS_PORTS :: "int set" where
  "SUSPICIOUS_PORTS = {4444, 5555, 6666, 1337, 31337, 12345, 9999}"

definition SUSPICIOUS_EXTENSIONS :: "string set" where
  "SUSPICIOUS_EXTENSIONS = {''.exe'', ''.bat'', ''.ps1'', ''.vbs'', ''.dll'', ''.scr''}"

section \<open>Observations\<close>

text \<open>
  An observation is the dict a collector builds. Each key the code reads is a field;
  \<open>None\<close> stands for a key that is absent (for the keys that are only copied into the
  stored row, also for a key holding Python's None). The evidence payload \<open>raw_data\<close> is
  schemaless: a dict from keys to JSON scalars, or something that is not a dict.
\<close>

datatype jval = JInt int | JFloat pyfloat | JStr string | JNull

datatype raw = RawDict "(string \<times> jval) list" | RawOther

record event =
  ev_id :: "string option"
  event_type :: "string option"
  severity :: "string option"
  title :: "string option"
  description :: "string option"
  source :: "string option"
  source_ip :: "string option"
  destination_ip :: "string option"
  process_name :: "string option"
  process_id :: "int option"
  file_path :: "string option"
  threat_score :: "pyfloat option"
  created_at :: "string option"
  raw_data :: "raw option"

datatype py_error =
  TypeError | RuntimeError | DatabaseError | PermissionError | OSError | AccessDenied

section \<open>Scorer (analyzers/threat\_scorer.py)\<close>

definition EVENT_BASE_SCORES :: "string \<rightharpoonup> pyfloat" where
  "EVENT_BASE_SCORES = map_of
     [(EventType_value SUSPICIOUS_PROCESS, lit (8 / 10)),
      (EventType_value NETWORK_ANOMALY, lit (6 / 10)),
      (EventType_value FILE_CHANGE, lit (5 / 10)),
      (EventType_value HIGH_RESOURCE, lit (3 / 10)),
      (EventType_value PORT_SCAN, lit (7 / 10)),
      (EventType_value BRUTE_FORCE, lit (8 / 10)),
      (EventType_value USB_DEVICE, lit (4 / 10))]"

definition critical_keywords :: "string list" where
  "critical_keywords =
     [''mimikatz'', ''keylogger'', ''malware'', ''backdoor'', ''trojan'', ''ransomware'']"

text \<open>The keyword loop: the first keyword found in the text adds the bonus and breaks.\<close>

fun keyword_loop :: "string list \<Rightarrow> string \<Rightarrow> pyfloat \<Rightarrow> pyfloat" where
  "keyword_loop [] text score = score"
| "keyword_loop (keyword # rest) text score =
     (if sublist keyword text then py_min (fadd score (lit (15 / 100))) (Fin 1)
      else keyword_loop rest text score)"

text \<open>
  \<open>total_connections > 50\<close> on a payload value: an int or a float is compared with 50, a
  string or None raises TypeError.
\<close>

fun gt_50 :: "jval \<Rightarrow> py_error + bool" where
  "gt_50 (JInt n) = Inr (50 < n)"
| "gt_50 (JFloat x) = Inr (fgt x (Fin 50))"
| "gt_50 (JStr s) = Inl TypeError"
| "gt_50 JNull = Inl TypeError"

definition connection_factor :: "raw option \<Rightarrow> pyfloat \<Rightarrow> py_error + pyfloat" where
  \<comment> \<open>\<open>event.get("raw_data", {})\<close>: an absent key is the empty dict\<close>
  "connection_factor rd score =
     (case (case rd of None \<Rightarrow> RawDict [] | Some r \<Rightarrow> r) of
        RawDict d \<Rightarrow>
          (case gt_50 (case map_of d ''total_connections'' of None \<Rightarrow> JInt 0 | Some v \<Rightarrow> v) of
             Inl e \<Rightarrow> Inl e
           | Inr b \<Rightarrow> Inr (if b then py_min (fadd score (lit (1 / 10))) (Fin 1) else score))
      | RawOther \<Rightarrow> Inr score)"

definition calculate_threat_score :: "event \<Rightarrow> py_error + pyfloat" where
  "calculate_threat_score ev =
     (let etype = (case event_type ev of None \<Rightarrow> [] | Some t \<Rightarrow> t);
          score0 = (case EVENT_BASE_SCORES etype of None \<Rightarrow> lit (3 / 10) | Some b \<Rightarrow> b);
          existing_score = (case threat_score ev of None \<Rightarrow> Fin 0 | Some s \<Rightarrow> s);
          score1 = (if fgt existing_score (Fin 0) then fdiv2 (fadd score0 existing_score)
                    else score0);
          title_l = lower (case title ev of None \<Rightarrow> [] | Some t \<Rightarrow> t);
          description_l = lower (case description ev of None \<Rightarrow> [] | Some d \<Rightarrow> d);
          text = title_l @ '' '' @ description_l;
          score2 = keyword_loop critical_keywords text score1
      in case connection_factor (raw_data ev) score2 of
           Inl e \<Rightarrow> Inl e
         | Inr score3 \<Rightarrow> Inr (py_max (Fin 0) (py_min (Fin 1) (py_round2 score3))))"

definition get_severity_from_score :: "pyfloat \<Rightarrow> string" where
  "get_severity_from_score score =
     (if fge score (lit (7 / 10)) then Severity_value CRITICAL
      else if fge score (lit (5 / 10)) then Severity_value HIGH
      else if fge score (lit (3 / 10)) then Severity_value MEDIUM
      else Severity_value LOW)"

section \<open>The world outside the pipeline\<close>

text \<open>
  What the pipeline reads from and writes to: the random source behind \<open>uuid4\<close>, the
  clock, the logger and the database behind \<open>db_manager\<close>. \<open>session_factory\<close> tells
  whether \<open>db_manager\<close> was initialised; \<open>commit_fails k\<close> tells whether the commit
  number \<open>k\<close> (counting from 0) raises; \<open>journal\<close> lists the rows handed to a commit, in
  order, whatever the outcome; the three tables hold the rows whose commit succeeded.
\<close>

record security_event_row =
  se_id :: string
  se_event_type :: string
  se_severity :: string
  se_title :: string
  se_description :: "string option"
  se_source :: string
  se_source_ip :: "string option"
  se_destination_ip :: "string option"
  se_process_name :: "string option"
  se_process_id :: "int option"
  se_file_path :: "string option"
  se_threat_score :: pyfloat
  se_raw_data :: "raw option"

record alert_row =
  ar_id :: string
  ar_event_id :: string
  ar_severity :: string
  ar_title :: string
  ar_description :: "string option"
  ar_status :: string
  ar_threat_score :: pyfloat

record alert_data =
  al_id :: string
  al_event_id :: string
  al_severity :: string
  al_title :: string
  al_description :: "string option"
  al_status :: string
  al_threat_score :: pyfloat
  al_created_at :: string

record system_metric =
  sm_id :: string
  cpu_percent :: pyfloat
  memory_percent :: pyfloat
  disk_percent :: pyfloat
  network_bytes_sent :: int
  network_bytes_recv :: int
  active_processes :: nat
  sm_created_at :: string

datatype db_call = AddEvent security_event_row | AddAlert alert_row | AddMetric system_metric

datatype log_record = LogInfo string | LogWarning string | LogError string

record world =
  uuid4 :: "nat \<Rightarrow> string"
  uuid_drawn :: nat
  utc_clock :: "nat \<Rightarrow> string"
  clock_reads :: nat
  session_factory :: bool
  commit_fails :: "nat \<Rightarrow> bool"
  journal :: "db_call list"
  security_events :: "security_event_row list"
  alerts :: "alert_row list"
  system_metrics :: "system_metric list"
  logged :: "log_record list"

definition generate_id :: "world \<Rightarrow> string \<times> world" where
  "generate_id w = (uuid4 w (uuid_drawn w), w\<lparr>uuid_drawn := Suc (uuid_drawn w)\<rparr>)"

definition now_utc_isoformat :: "world \<Rightarrow> string \<times> world" where
  "now_utc_isoformat w = (utc_clock w (clock_reads w), w\<lparr>clock_reads := Suc (clock_reads w)\<rparr>)"

definition logger :: "log_record \<Rightarrow> world \<Rightarrow> world" where
  "logger r w = w\<lparr>logged := logged w @ [r]\<rparr>"

section \<open>Analyzer (analyzers/event\_analyzer.py)\<close>

definition ALERT_THRESHOLD :: pyfloat where
  "ALERT_THRESHOLD = lit (5 / 10)"

text \<open>The row \<open>SecurityEvent(...)\<close> built from an observation; \<open>uid\<close> is the default id.\<close>

definition SecurityEvent_of :: "event \<Rightarrow> string \<Rightarrow> security_event_row" where
  "SecurityEvent_of ev uid =
     \<lparr> se_id = (case ev_id ev of None \<Rightarrow> uid | Some i \<Rightarrow> i),
       se_event_type = (case event_type ev of None \<Rightarrow> ''unknown'' | Some t \<Rightarrow> t),
       se_severity = (case severity ev of None \<Rightarrow> ''low'' | Some t \<Rightarrow> t),
       se_title = (case title ev of None \<Rightarrow> ''Unknown Event'' | Some t \<Rightarrow> t),
       se_description = description ev,
       se_source = (case source ev of None \<Rightarrow> ''unknown'' | Some t \<Rightarrow> t),
       se_source_ip = source_ip ev,
       se_destination_ip = destination_ip ev,
       se_process_name = process_name ev,
       se_process_id = process_id ev,
       se_file_path = file_path ev,
       se_threat_score = (case threat_score ev of None \<Rightarrow> Fin 0 | Some x \<Rightarrow> x),
       se_raw_data = raw_data ev \<rparr>"

text \<open>
  \<open>_save_event\<close>: everything happens inside \<open>try\<close>; \<open>get_session\<close> raises when the
  manager was never initialised, the commit may raise, and every exception is logged and
  swallowed. The default \<open>generate_id()\<close> of the \<open>id\<close> lookup is evaluated whether or not
  the key is present.
\<close>

definition save_event :: "event \<Rightarrow> world \<Rightarrow> world" where
  "save_event ev w =
     (if \<not> session_factory w then logger (LogError ''Failed to save event'') w
      else
        case generate_id w of (uid, w1) \<Rightarrow>
          let db_event = SecurityEvent_of ev uid;
              k = length (journal w1);
              w2 = w1\<lparr>journal := journal w1 @ [AddEvent db_event]\<rparr>
          in if commit_fails w2 k then logger (LogError ''Failed to save event'') w2
             else w2\<lparr>security_events := security_events w2 @ [db_event]\<rparr>)"

text \<open>The dict \<open>alert_data\<close> of \<open>_create_alert\<close>, and the row \<open>Alert(...)\<close> built from it.\<close>

definition alert_data_of :: "event \<Rightarrow> string \<Rightarrow> string \<Rightarrow> alert_data" where
  "alert_data_of ev uid ts =
     \<lparr> al_id = uid,
       al_event_id = (case ev_id ev of None \<Rightarrow> [] | Some i \<Rightarrow> i),
       al_severity = (case severity ev of None \<Rightarrow> ''medium'' | Some t \<Rightarrow> t),
       al_title = (case title ev of None \<Rightarrow> ''Security Alert'' | Some t \<Rightarrow> t),
       al_description = description ev,
       al_status = ''new'',
       al_threat_score = (case threat_score ev of None \<Rightarrow> Fin 0 | Some x \<Rightarrow> x),
       al_created_at = ts \<rparr>"

definition Alert_of :: "alert_data \<Rightarrow> alert_row" where
  "Alert_of a =
     \<lparr> ar_id = al_id a,
       ar_event_id = al_event_id a,
       ar_severity = al_severity a,
       ar_title = al_title a,
       ar_description = al_description a,
       ar_status = al_status a,
       ar_threat_score = al_threat_score a \<rparr>"

text \<open>
  \<open>_create_alert\<close>: the dict is built first (one uuid, one clock reading); storing the row
  happens inside \<open>try\<close>, and the dict is returned in every case.
\<close>

definition create_alert :: "event \<Rightarrow> world \<Rightarrow> alert_data \<times> world" where
  "create_alert ev w =
     (case generate_id w of (uid, w1) \<Rightarrow>
      case now_utc_isoformat w1 of (ts, w2) \<Rightarrow>
        let alert = alert_data_of ev uid ts
        in if \<not> session_factory w2
           then (alert, logger (LogError ''Failed to create alert'') w2)
           else
             let db_alert = Alert_of alert;
                 k = length (journal w2);
                 w3 = w2\<lparr>journal := journal w2 @ [AddAlert db_alert]\<rparr>
             in if commit_fails w3 k
                then (alert, logger (LogError ''Failed to create alert'') w3)
                else (alert,
                      logger (LogWarning ''ALERT CREATED'') (w3\<lparr>alerts := alerts w3 @ [db_alert]\<rparr>)))"

text \<open>
  \<open>analyze_event\<close> returns the alert (or None), and also mutates the observation: the
  result carries the observation as it is after the call. When the scorer raises, nothing
  has been written yet.
\<close>

definition analyze_event ::
  "event \<Rightarrow> world \<Rightarrow> py_error + (alert_data option \<times> event \<times> world)" where
  "analyze_event ev w =
     (case calculate_threat_score ev of
        Inl e \<Rightarrow> Inl e
      | Inr score \<Rightarrow>
          let sev = get_severity_from_score score;
              ev1 = ev\<lparr>threat_score := Some score, severity := Some sev\<rparr>;
              w1 = logger (LogInfo ''Event analyzed'') w;
              w2 = save_event ev1 w1
          in if fge score ALERT_THRESHOLD
             then (case create_alert ev1 w2 of (alert, w3) \<Rightarrow> Inr (Some alert, ev1, w3))
             else Inr (None, ev1, w2))"

text \<open>
  \<open>analyze_batch\<close>: an exception of one item leaves the loop; what earlier items wrote
  stays written, so the error comes with the world as it is then.
\<close>

fun analyze_batch_loop ::
  "event list \<Rightarrow> alert_data list \<Rightarrow> world \<Rightarrow> (py_error + alert_data list) \<times> world" where
  "analyze_batch_loop [] alerts_acc w = (Inr alerts_acc, w)"
| "analyze_batch_loop (ev # rest) alerts_acc w =
     (case analyze_event ev w of
        Inl e \<Rightarrow> (Inl e, w)
      | Inr (None, ev1, w1) \<Rightarrow> analyze_batch_loop rest alerts_acc w1
      | Inr (Some alert, ev1, w1) \<Rightarrow> analyze_batch_loop rest (alerts_acc @ [alert]) w1)"

definition analyze_batch :: "event list \<Rightarrow> world \<Rightarrow> (py_error + alert_data list) \<times> world" where
  "analyze_batch events w =
     (case analyze_batch_loop events [] w of
        (Inl e, w1) \<Rightarrow> (Inl e, w1)
      | (Inr alerts_out, w1) \<Rightarrow>
          (Inr alerts_out,
           if alerts_out \<noteq> [] then logger (LogWarning ''Created alerts from events'') w1 else w1))"

section \<open>Rendering integers (f-strings)\<close>

definition digit_char :: "nat \<Rightarrow> char" where
  "digit_char d = char_of (48 + d)"

function str_nat :: "nat \<Rightarrow> string" where
  "str_nat n = (if n < 10 then [digit_char n] else str_nat (n div 10) @ [digit_char (n mod 10)])"
  by pat_completeness auto
termination
  by (relation "measure (\<lambda>n. n)") auto

declare str_nat.simps [simp del]

definition str_int :: "int \<Rightarrow> string" where
  "str_int i = (if i < 0 then CHR ''-'' # str_nat (nat (- i)) else str_nat (nat i))"

section \<open>Network collector (collectors/network\_collector.py)\<close>

text \<open>
  A connection as \<open>psutil.net_connections\<close> reports it; an address that psutil leaves
  empty is \<open>None\<close>.
\<close>

record addr =
  ip :: string
  port :: int

record sconn =
  status :: string
  laddr :: "addr option"
  raddr :: "addr option"
  pid :: "int option"

definition addr_str :: "addr \<Rightarrow> string" where
  "addr_str a = ip a @ '':'' @ str_int (port a)"

definition json_pid :: "int option \<Rightarrow> jval" where
  "json_pid p = (case p of None \<Rightarrow> JNull | Some n \<Rightarrow> JInt n)"

text \<open>
  \<open>_check_suspicious_port\<close>: the remote address is looked at first and the function
  returns there when its port is suspicious; the local address is looked at only
  otherwise. The result is one finding or None.
\<close>

definition check_suspicious_port :: "sconn \<Rightarrow> world \<Rightarrow> event option \<times> world" where
  "check_suspicious_port conn w =
     (case (case raddr conn of None \<Rightarrow> None
            | Some ra \<Rightarrow> if port ra \<in> SUSPICIOUS_PORTS then Some ra else None) of
        Some ra \<Rightarrow>
          (case generate_id (logger (LogWarning ''SUSPICIOUS PORT'') w) of (uid, w1) \<Rightarrow>
           case now_utc_isoformat w1 of (ts, w2) \<Rightarrow>
             (Some \<lparr> ev_id = Some uid,
                event_type = Some (EventType_value NETWORK_ANOMALY),
                severity = Some (Severity_value HIGH),
                title = Some (''Connection to suspicious port '' @ str_int (port ra)),
                description = Some (''Outgoing connection to '' @ addr_str ra),
                source = Some ''Network'',
                source_ip = (case laddr conn of None \<Rightarrow> None | Some la \<Rightarrow> Some (ip la)),
                destination_ip = Some (ip ra),
                process_name = None,
                process_id = pid conn,
                file_path = None,
                threat_score = Some (lit (8 / 10)),
                created_at = Some ts,
                raw_data = Some (RawDict
                  [(''local'', (case laddr conn of None \<Rightarrow> JNull | Some la \<Rightarrow> JStr (addr_str la))),
                   (''remote'', JStr (addr_str ra)),
                   (''status'', JStr (status conn)),
                   (''pid'', json_pid (pid conn))]) \<rparr>, w2))
      | None \<Rightarrow>
          (case (case laddr conn of None \<Rightarrow> None
                 | Some la \<Rightarrow> if port la \<in> SUSPICIOUS_PORTS then Some la else None) of
             Some la \<Rightarrow>
               (case generate_id w of (uid, w1) \<Rightarrow>
                case now_utc_isoformat w1 of (ts, w2) \<Rightarrow>
                  (Some \<lparr> ev_id = Some uid,
                     event_type = Some (EventType_value NETWORK_ANOMALY),
                     severity = Some (Severity_value CRITICAL),
                     title = Some (''Suspicious port '' @ str_int (port la) @ '' is active''),
                     description = Some (''Local machine listening on suspicious port ''
                                         @ str_int (port la)),
                     source = Some ''Network'',
                     source_ip = Some (ip la),
                     destination_ip = None,
                     process_name = None,
                     process_id = None,
                     file_path = None,
                     threat_score = Some (lit (85 / 100)),
                     created_at = Some ts,
                     raw_data = Some (RawDict
                       [(''local'', JStr (addr_str la)),
                        (''status'', JStr (status conn)),
                        (''pid'', json_pid (pid conn))]) \<rparr>, w2))
           | None \<Rightarrow> (None, w)))"

definition check_port_scan :: "int list \<Rightarrow> world \<Rightarrow> event option \<times> world" where
  "check_port_scan remote_ports w =
     (if length remote_ports < 20 then (None, w)
      else
        let unique_ports = set remote_ports in
        if 20 \<le> card unique_ports then
          (case generate_id (logger (LogWarning ''POSSIBLE PORT SCAN'') w) of (uid, w1) \<Rightarrow>
           case now_utc_isoformat w1 of (ts, w2) \<Rightarrow>
             (Some \<lparr> ev_id = Some uid,
                event_type = Some (EventType_value PORT_SCAN),
                severity = Some (Severity_value HIGH),
                title = Some (''Possible port scan detected (''
                              @ str_nat (card unique_ports) @ '' ports)''),
                description = Some (''System connecting to ''
                                    @ str_nat (card unique_ports) @ '' unique ports''),
                source = Some ''Network'',
                source_ip = None,
                destination_ip = None,
                process_name = None,
                process_id = None,
                file_path = None,
                threat_score = Some (lit (7 / 10)),
                created_at = Some ts,
                raw_data = Some (RawDict
                  [(''unique_ports'', JInt (int (card unique_ports))),
                   (''total_connections'', JInt (int (length remote_ports)))]) \<rparr>, w2))
        else (None, w))"

text \<open>The loop of \<open>collect\<close> over the connections: only established ones are looked at.\<close>

fun network_loop ::
  "sconn list \<Rightarrow> event list \<Rightarrow> int list \<Rightarrow> world \<Rightarrow> event list \<times> int list \<times> world" where
  "network_loop [] events remote_ports w = (events, remote_ports, w)"
| "network_loop (conn # rest) events remote_ports w =
     (if status conn \<noteq> ''ESTABLISHED'' then network_loop rest events remote_ports w
      else
        case check_suspicious_port conn w of (suspicious_event, w1) \<Rightarrow>
          network_loop rest
            (case suspicious_event of None \<Rightarrow> events | Some e \<Rightarrow> events @ [e])
            (case raddr conn of None \<Rightarrow> remote_ports | Some ra \<Rightarrow> remote_ports @ [port ra])
            w1)"

text \<open>
  \<open>NetworkCollector.collect\<close>; the argument is what \<open>psutil.net_connections\<close> gives on
  this poll: the connections, or an exception (AccessDenied is caught, any other one
  leaves the function).
\<close>

definition NetworkCollector_collect ::
  "py_error + sconn list \<Rightarrow> world \<Rightarrow> (py_error + event list) \<times> world" where
  "NetworkCollector_collect net w =
     (case net of
        Inl AccessDenied \<Rightarrow>
          (Inr [], logger (LogWarning ''Need admin access for full network monitoring'') w)
      | Inl e \<Rightarrow> (Inl e, w)
      | Inr connections \<Rightarrow>
          (case network_loop connections [] [] w of (events, remote_ports, w1) \<Rightarrow>
           case check_port_scan remote_ports w1 of (scan_event, w2) \<Rightarrow>
             (Inr (case scan_event of None \<Rightarrow> events | Some e \<Rightarrow> events @ [e]), w2)))"

section \<open>File collector (collectors/file\_collector.py)\<close>

text \<open>
  A path is the string \<open>str\<close> gives for it (components joined by a slash); its name is
  what follows the last slash and its parent what precedes it. The file system is read as
  one snapshot per poll: whether a watched directory exists, what \<open>iterdir\<close> lists (or the
  exception it raises), which entries are regular files, their sizes, and what
  \<open>calculate_file_hash\<close> returns (\<open>None\<close> when it raises). A regular file of the snapshot
  can be stat'ed.
\<close>

type_synonym pypath = string

definition name :: "pypath \<Rightarrow> string" where
  "name p = rev (takeWhile (\<lambda>c. c \<noteq> CHR ''/'') (rev p))"

definition parent :: "pypath \<Rightarrow> string" where
  "parent p =
     (let d = rev (drop 1 (dropWhile (\<lambda>c. c \<noteq> CHR ''/'') (rev p)))
      in if d \<noteq> [] then d else if take 1 p = ''/'' then ''/'' else ''.'')"

definition rfind :: "char \<Rightarrow> string \<Rightarrow> nat option" where
  "rfind c s =
     (let i = length (takeWhile (\<lambda>x. x \<noteq> c) (rev s))
      in if i = length s then None else Some (length s - 1 - i))"

definition suffix_of :: "pypath \<Rightarrow> string" where
  \<comment> \<open>\<open>PurePath.suffix\<close>: from the last dot of the name, unless the dot is first or last\<close>
  "suffix_of p =
     (case rfind CHR ''.'' (name p) of
        None \<Rightarrow> []
      | Some i \<Rightarrow> if 0 < i \<and> i + 1 < length (name p) then drop i (name p) else [])"

record fs =
  path_exists :: "string \<Rightarrow> bool"
  iterdir :: "string \<Rightarrow> py_error + pypath list"
  is_file :: "pypath \<Rightarrow> bool"
  st_size :: "pypath \<Rightarrow> nat"
  calculate_file_hash :: "pypath \<Rightarrow> string option"

type_synonym known_files = "string \<rightharpoonup> string"

definition check_extension ::
  "fs \<Rightarrow> pypath \<Rightarrow> known_files \<Rightarrow> world \<Rightarrow> event option \<times> known_files \<times> world" where
  "check_extension f file known w =
     (let extension = lower (suffix_of file) in
      if extension \<in> SUSPICIOUS_EXTENSIONS then
        let file_key = file in
        if known file_key \<noteq> None then (None, known, w)
        else
          let w0 = logger (LogWarning ''SUSPICIOUS FILE'') w;
              known1 = known(file_key \<mapsto>
                 (case calculate_file_hash f file of None \<Rightarrow> ''unknown'' | Some h \<Rightarrow> h))
          in case generate_id w0 of (uid, w1) \<Rightarrow>
             case now_utc_isoformat w1 of (ts, w2) \<Rightarrow>
               (Some \<lparr> ev_id = Some uid,
                  event_type = Some (EventType_value FILE_CHANGE),
                  severity = Some (Severity_value HIGH),
                  title = Some (''Suspicious file found: '' @ name file),
                  description = Some (''File with suspicious extension '' @ [CHR 0x27] @ extension
                                      @ [CHR 0x27] @ '' found at '' @ file),
                  source = Some ''File'',
                  source_ip = None,
                  destination_ip = None,
                  process_name = None,
                  process_id = None,
                  file_path = Some file,
                  threat_score = Some (lit (7 / 10)),
                  created_at = Some ts,
                  raw_data = Some (RawDict
                    [(''filename'', JStr (name file)),
                     (''extension'', JStr extension),
                     (''size_bytes'', JInt (int (st_size f file))),
                     (''directory'', JStr (parent file))]) \<rparr>, known1, w2)
      else (None, known, w))"

definition check_file_change ::
  "fs \<Rightarrow> pypath \<Rightarrow> known_files \<Rightarrow> world \<Rightarrow> event option \<times> known_files \<times> world" where
  "check_file_change f file known w =
     (let file_key = file in
      case known file_key of
        None \<Rightarrow> (None, known, w)
      | Some old_hash \<Rightarrow>
          (case calculate_file_hash f file of
             None \<Rightarrow> (None, known, w)
           | Some current_hash \<Rightarrow>
               if current_hash \<noteq> old_hash then
                 let w0 = logger (LogWarning ''FILE MODIFIED'') w;
                     known1 = known(file_key \<mapsto> current_hash)
                 in case generate_id w0 of (uid, w1) \<Rightarrow>
                    case now_utc_isoformat w1 of (ts, w2) \<Rightarrow>
                      (Some \<lparr> ev_id = Some uid,
                         event_type = Some (EventType_value FILE_CHANGE),
                         severity = Some (Severity_value MEDIUM),
                         title = Some (''File modified: '' @ name file),
                         description = Some (''File hash changed for '' @ file),
                         source = Some ''File'',
                         source_ip = None,
                         destination_ip = None,
                         process_name = None,
                         process_id = None,
                         file_path = Some file,
                         threat_score = Some (lit (5 / 10)),
                         created_at = Some ts,
                         raw_data = Some (RawDict
                           [(''filename'', JStr (name file)),
                            (''old_hash'', JStr old_hash),
                            (''new_hash'', JStr current_hash)]) \<rparr>, known1, w2)
               else (None, known, w)))"

text \<open>
  The two checks that \<open>collect\<close> makes on one regular file, in their order, with the
  findings they add to the list.
\<close>

definition scan_file ::
  "fs \<Rightarrow> pypath \<Rightarrow> known_files \<Rightarrow> world \<Rightarrow> event list \<times> known_files \<times> world" where
  "scan_file f file known w =
     (case check_extension f file known w of (ext_event, known1, w1) \<Rightarrow>
      case check_file_change f file known1 w1 of (change_event, known2, w2) \<Rightarrow>
        ((case ext_event of None \<Rightarrow> [] | Some e \<Rightarrow> [e])
         @ (case change_event of None \<Rightarrow> [] | Some e \<Rightarrow> [e]), known2, w2))"

text \<open>The inner loop of \<open>collect\<close>, over the entries of one directory.\<close>

fun scan_files ::
  "fs \<Rightarrow> pypath list \<Rightarrow> event list \<Rightarrow> known_files \<Rightarrow> world
   \<Rightarrow> event list \<times> known_files \<times> world" where
  "scan_files f [] events known w = (events, known, w)"
| "scan_files f (file # rest) events known w =
     (if \<not> is_file f file then scan_files f rest events known w
      else
        case scan_file f file known w of (found, known2, w2) \<Rightarrow>
          scan_files f rest (events @ found) known2 w2)"

text \<open>
  The outer loop, over the watched directories: a missing one is skipped, a
  PermissionError of the listing is logged and skipped, any other exception leaves
  \<open>collect\<close> (with \<open>known_files\<close> as it is by then).
\<close>

fun scan_paths ::
  "fs \<Rightarrow> string list \<Rightarrow> event list \<Rightarrow> known_files \<Rightarrow> world
   \<Rightarrow> (py_error + event list) \<times> known_files \<times> world" where
  "scan_paths f [] events known w = (Inr events, known, w)"
| "scan_paths f (watch_path # rest) events known w =
     (if \<not> path_exists f watch_path then scan_paths f rest events known w
      else
        case iterdir f watch_path of
          Inl PermissionError \<Rightarrow>
            scan_paths f rest events known (logger (LogWarning ''No permission to scan'') w)
        | Inl e \<Rightarrow> (Inl e, known, w)
        | Inr files \<Rightarrow>
            (case scan_files f files events known w of (events1, known1, w1) \<Rightarrow>
               scan_paths f rest events1 known1 w1))"

definition FileCollector_collect ::
  "fs \<Rightarrow> string list \<Rightarrow> known_files \<Rightarrow> world
   \<Rightarrow> (py_error + event list) \<times> known_files \<times> world" where
  "FileCollector_collect f watch_paths known w = scan_paths f watch_paths [] known w"

section \<open>System collector (collectors/system\_collector.py)\<close>

record psutil_sample =
  sample_cpu :: pyfloat
  sample_memory :: pyfloat
  sample_disk :: pyfloat
  sample_bytes_sent :: int
  sample_bytes_recv :: int
  sample_pids :: nat

definition SystemCollector_collect :: "psutil_sample \<Rightarrow> world \<Rightarrow> system_metric list \<times> world" where
  "SystemCollector_collect smp w =
     (case generate_id w of (uid, w1) \<Rightarrow>
      case now_utc_isoformat w1 of (ts, w2) \<Rightarrow>
        ([\<lparr> sm_id = uid,
            cpu_percent = sample_cpu smp,
            memory_percent = sample_memory smp,
            disk_percent = sample_disk smp,
            network_bytes_sent = sample_bytes_sent smp,
            network_bytes_recv = sample_bytes_recv smp,
            active_processes = sample_pids smp,
            sm_created_at = ts \<rparr>],
         logger (LogInfo ''CPU | RAM | Disk'') w2))"

section \<open>Orchestrator (core/engine.py)\<close>

text \<open>
  The four collectors of the engine, by the key of \<open>self.collectors\<close>. The engine state
  holds the flag, the counters, and the state the file collector keeps between polls.
  What the host shows on one poll is a \<open>host\<close>; the findings of the process collector are
  taken as given.
\<close>

datatype collector_name = Process | Network | File | System

fun name_str :: "collector_name \<Rightarrow> string" where
  "name_str Process = ''process''"
| "name_str Network = ''network''"
| "name_str File = ''file''"
| "name_str System = ''system''"

record engine =
  is_running :: bool
  total_events :: nat
  total_alerts :: nat
  watch_paths :: "string list"
  known_files :: known_files

record host =
  process_scan :: "py_error + event list"
  net_connections :: "py_error + sconn list"
  filesystem :: fs
  sample :: psutil_sample

datatype batch = EventBatch "event list" | MetricBatch "system_metric list"

text \<open>A metric dict read through the keys of an observation: only id and created\_at are there.\<close>

definition metric_as_event :: "system_metric \<Rightarrow> event" where
  "metric_as_event m =
     \<lparr> ev_id = Some (sm_id m), event_type = None, severity = None, title = None,
       description = None, source = None, source_ip = None, destination_ip = None,
       process_name = None, process_id = None, file_path = None, threat_score = None,
       created_at = Some (sm_created_at m), raw_data = None \<rparr>"

fun batch_events :: "batch \<Rightarrow> event list" where
  "batch_events (EventBatch es) = es"
| "batch_events (MetricBatch ms) = map metric_as_event ms"

definition collect ::
  "collector_name \<Rightarrow> host \<Rightarrow> engine \<Rightarrow> world \<Rightarrow> (py_error + batch) \<times> engine \<times> world" where
  "collect nm h eng w =
     (case nm of
        Process \<Rightarrow>
          (case process_scan h of Inl e \<Rightarrow> (Inl e, eng, w) | Inr es \<Rightarrow> (Inr (EventBatch es), eng, w))
      | Network \<Rightarrow>
          (case NetworkCollector_collect (net_connections h) w of
             (Inl e, w1) \<Rightarrow> (Inl e, eng, w1)
           | (Inr es, w1) \<Rightarrow> (Inr (EventBatch es), eng, w1))
      | File \<Rightarrow>
          (case FileCollector_collect (filesystem h) (watch_paths eng) (known_files eng) w of
             (Inl e, known1, w1) \<Rightarrow> (Inl e, eng\<lparr>known_files := known1\<rparr>, w1)
           | (Inr es, known1, w1) \<Rightarrow> (Inr (EventBatch es), eng\<lparr>known_files := known1\<rparr>, w1))
      | System \<Rightarrow>
          (case SystemCollector_collect (sample h) w of
             (ms, w1) \<Rightarrow> (Inr (MetricBatch ms), eng, w1)))"

text \<open>
  One pass through the body of the \<open>while\<close> loop of \<open>_run_collector\<close>, up to the sleep:
  collect, then, for a non-empty batch of a collector other than the system one, count
  the events, analyze the batch and count the alerts. An exception anywhere in it is
  logged.
\<close>

definition run_collector_cycle ::
  "collector_name \<Rightarrow> host \<Rightarrow> engine \<times> world \<Rightarrow> engine \<times> world" where
  "run_collector_cycle nm h st =
     (case collect nm h (fst st) (snd st) of
        (Inl e, eng1, w1) \<Rightarrow> (eng1, logger (LogError ''Collector error'') w1)
      | (Inr b, eng1, w1) \<Rightarrow>
          if batch_events b \<noteq> [] \<and> name_str nm \<noteq> ''system'' then
            (let events = batch_events b;
                 eng2 = eng1\<lparr>total_events := total_events eng1 + length events\<rparr>
             in (case analyze_batch events w1 of
                   (Inl e, w2) \<Rightarrow> (eng2, logger (LogError ''Collector error'') w2)
                 | (Inr alerts_out, w2) \<Rightarrow>
                     (eng2\<lparr>total_alerts := total_alerts eng2 + length alerts_out\<rparr>, w2)))
          else (eng1, w1))"

section \<open>Predicates for stating the properties\<close>

text \<open>The evidence payload does not trigger the connection bonus (and does not raise).\<close>

definition no_connection_bonus :: "raw option \<Rightarrow> bool" where
  "no_connection_bonus rd =
     (case (case rd of None \<Rightarrow> RawDict [] | Some r \<Rightarrow> r) of
        RawDict d \<Rightarrow>
          gt_50 (case map_of d ''total_connections'' of None \<Rightarrow> JInt 0 | Some v \<Rightarrow> v) = Inr False
      | RawOther \<Rightarrow> True)"

text \<open>Some critical keyword occurs in the lower-cased title, a space, and the description.\<close>

definition mentions_critical_keyword :: "event \<Rightarrow> bool" where
  "mentions_critical_keyword ev =
     (\<exists>kw\<in>set critical_keywords.
        sublist kw (lower (case title ev of None \<Rightarrow> [] | Some t \<Rightarrow> t) @ '' '' @
                    lower (case description ev of None \<Rightarrow> [] | Some d \<Rightarrow> d)))"

text \<open>The remote ports that one poll of the network collector gathers, and whether a
  connection has a suspicious remote or local port.\<close>

definition established_remote_ports :: "sconn list \<Rightarrow> int list" where
  "established_remote_ports conns =
     concat (map (\<lambda>c. if status c = ''ESTABLISHED''
                        then (case raddr c of None \<Rightarrow> [] | Some ra \<Rightarrow> [port ra]) else []) conns)"

definition remote_suspicious :: "sconn \<Rightarrow> bool" where
  "remote_suspicious c = (case raddr c of None \<Rightarrow> False | Some ra \<Rightarrow> port ra \<in> SUSPICIOUS_PORTS)"

definition local_suspicious :: "sconn \<Rightarrow> bool" where
  "local_suspicious c = (case laddr c of None \<Rightarrow> False | Some la \<Rightarrow> port la \<in> SUSPICIOUS_PORTS)"

text \<open>
  The findings of a poll about one path: a new suspicious file is reported with severity
  high, a modification with severity medium. A path is visited by a poll when it is a
  regular file listed in a watched directory that exists and can be listed.
\<close>

definition new_findings_for :: "pypath \<Rightarrow> event list \<Rightarrow> event list" where
  "new_findings_for p evs = filter (\<lambda>e. file_path e = Some p \<and> severity e = Some ''high'') evs"

definition modified_findings_for :: "pypath \<Rightarrow> event list \<Rightarrow> event list" where
  "modified_findings_for p evs =
     filter (\<lambda>e. file_path e = Some p \<and> severity e = Some ''medium'') evs"

definition visited :: "fs \<Rightarrow> string list \<Rightarrow> pypath \<Rightarrow> bool" where
  "visited f wps p =
     (is_file f p \<and>
      (\<exists>wp\<in>set wps. path_exists f wp \<and>
         (case iterdir f wp of Inl e \<Rightarrow> False | Inr files \<Rightarrow> p \<in> set files)))"

section \<open>Example inputs\<close>

definition example_file_event :: event where
  "example_file_event = \<lparr> ev_id = Some ''e1'', event_type = Some ''file_change'',
     severity = Some ''low'', title = None, description = None, source = None,
     source_ip = None, destination_ip = None, process_name = None, process_id = None,
     file_path = None, threat_score = None, created_at = None, raw_data = None \<rparr>"

definition example_mimikatz_event :: event where
  "example_mimikatz_event = \<lparr> ev_id = Some ''e7'', event_type = Some ''suspicious_process'',
     severity = None, title = Some ''Suspicious process detected: Mimikatz.exe'',
     description = Some ''ransomware trojan backdoor'', source = Some ''Process'',
     source_ip = None, destination_ip = None, process_name = Some ''Mimikatz.exe'',
     process_id = Some 4242, file_path = None, threat_score = Some (Fin 0), created_at = None,
     raw_data = Some (RawDict [(''total_connections'', JInt 80)]) \<rparr>"

definition example_world :: world where
  "example_world = \<lparr> uuid4 = (\<lambda>n. replicate (Suc n) CHR ''u''), uuid_drawn = 0,
     utc_clock = (\<lambda>n. ''2024-01-01T00:00:00+00:00''), clock_reads = 0,
     session_factory = True, commit_fails = (\<lambda>k. False), journal = [],
     security_events = [], alerts = [], system_metrics = [], logged = [] \<rparr>"

definition example_conn :: sconn where
  "example_conn = \<lparr> status = ''ESTABLISHED'',
     laddr = Some \<lparr> ip = ''10.0.0.5'', port = 5555 \<rparr>,
     raddr = Some \<lparr> ip = ''203.0.113.9'', port = 4444 \<rparr>,
     pid = Some 812 \<rparr>"

definition example_ports_19_of_25 :: "int list" where
  "example_ports_19_of_25 =
     [80, 443, 8080, 22, 25, 53, 110, 143, 993, 995, 3306, 5432, 6379, 8443, 9200, 27017,
      21, 23, 3389, 80, 443, 80, 443, 22, 22]"

definition example_ports_20 :: "int list" where
  "example_ports_20 =
     [80, 443, 8080, 22, 25, 53, 110, 143, 993, 995, 3306, 5432, 6379, 8443, 9200, 27017,
      21, 23, 3389, 5900]"

definition example_fs :: fs where
  "example_fs = \<lparr> path_exists = (\<lambda>d. d = ''/tmp''),
     iterdir = (\<lambda>d. Inr [''/tmp/setup.EXE'', ''/tmp/notes.txt'']),
     is_file = (\<lambda>p. True),
     st_size = (\<lambda>p. 2048),
     calculate_file_hash = (\<lambda>p. Some ''aa11'') \<rparr>"

definition example_host :: host where
  "example_host = \<lparr> process_scan = Inr [], net_connections = Inr [],
     filesystem = example_fs,
     sample = \<lparr> sample_cpu = lit (5 / 10), sample_memory = lit (7 / 10),
                sample_disk = lit (3 / 10), sample_bytes_sent = 1000,
                sample_bytes_recv = 2000, sample_pids = 77 \<rparr> \<rparr>"

definition example_engine :: engine where
  "example_engine = \<lparr> is_running = True, total_events = 0, total_alerts = 0,
     watch_paths = [''/tmp''], known_files = Map.empty \<rparr>"

text \<open>A world whose second commit (number 1) raises.\<close>

definition example_failing_world :: world where
  "example_failing_world = example_world\<lparr>commit_fails := (\<lambda>k. k = 1)\<rparr>"

section \<open>Facts about rounding\<close>

lemma rhe_unique: "\<bar>x - of_int m\<bar> < 1 / 2 \<Longrightarrow> round_half_even x = m"
proof -
  assume a: "\<bar>x - of_int m\<bar> < 1 / 2"
  show ?thesis
  proof (cases "of_int m \<le> x")
    case True
    with a have "\<lfloor>x\<rfloor> = m" by (intro floor_unique) auto
    with a True show ?thesis by (simp add: round_half_even_def Let_def)
  next
    case False
    with a have "\<lfloor>x\<rfloor> = m - 1" by (intro floor_unique) auto
    with a False show ?thesis by (auto simp add: round_half_even_def Let_def)
  qed
qed

lemma rhe_of_int: "round_half_even (of_int n) = n"
  by (rule rhe_unique) simp

lemma rhe_lower: "x - 1 / 2 \<le> of_int (round_half_even x)"
  unfolding round_half_even_def Let_def by (auto; linarith)

lemma rhe_upper: "of_int (round_half_even x) \<le> x + 1 / 2"
  unfolding round_half_even_def Let_def by (auto; linarith)

lemma rhe_mono: 
  assumes "x \<le> y" shows "round_half_even x \<le> round_half_even y"
proof (cases "x = y")
  case True then show ?thesis by simp
next
  case False
  with assms have "x < y" by simp
  have "(of_int (round_half_even x) :: rat) \<le> x + 1 / 2" by (rule rhe_upper)
  also have "\<dots> < y + 1 / 2" using \<open>x < y\<close> by simp
  also have "\<dots> \<le> of_int (round_half_even y) + 1" using rhe_lower [of y] by simp
  finally have "(of_int (round_half_even x) :: rat) < of_int (round_half_even y + 1)" by simp
  then have "round_half_even x < round_half_even y + 1" by (simp only: of_int_less_iff)
  then show ?thesis by simp
qed

lemma bitlen_pos: "0 < p \<Longrightarrow> 1 \<le> bitlen p"
  by (simp add: bitlen_alt_def)

lemma bitlen_bounds_rat:
  assumes "0 < p"
  shows "2 powi (bitlen p - 1) \<le> (of_int p :: rat)" and "(of_int p :: rat) < 2 powi (bitlen p)"
proof -
  from bitlen_bounds [OF assms] have a: "2 ^ nat (bitlen p - 1) \<le> p" and b: "p < 2 ^ nat (bitlen p)"
    by auto
  have "1 \<le> bitlen p" using assms by (rule bitlen_pos)
  then have e1: "(2::rat) powi (bitlen p - 1) = 2 ^ nat (bitlen p - 1)"
    and e2: "(2::rat) powi (bitlen p) = 2 ^ nat (bitlen p)"
    by (simp_all add: power_int_def)
  from a have "(of_int (2 ^ nat (bitlen p - 1)) :: rat) \<le> of_int p" by (simp only: of_int_le_iff)
  then show "2 powi (bitlen p - 1) \<le> (of_int p :: rat)" using e1 by simp
  from b have "(of_int p :: rat) < of_int (2 ^ nat (bitlen p))" by (simp only: of_int_less_iff)
  then show "(of_int p :: rat) < 2 powi (bitlen p)" using e2 by simp
qed

lemma ilog2_bounds:
  assumes "0 < x"
  shows "2 powi (ilog2 x) \<le> x" and "x < 2 powi (ilog2 x + 1)"
proof -
  obtain p q where pq: "quotient_of x = (p, q)" by (cases "quotient_of x")
  then have x: "x = of_int p / of_int q" and q: "0 < q"
    by (auto dest: quotient_of_div quotient_of_denom_pos)
  from assms x q have p: "0 < p" by (simp add: zero_less_divide_iff)
  define d where "d = bitlen p - bitlen q"
  have il: "ilog2 x = (if 2 powi d \<le> x then d else d - 1)"
    by (simp add: ilog2_def pq d_def Let_def)
  note bp = bitlen_bounds_rat [OF p] and bq = bitlen_bounds_rat [OF q]
  have qpos: "(0::rat) < of_int q" using q by simp
  have lo: "2 powi (d - 1) \<le> x"
  proof -
    have "(2::rat) powi (d - 1) * of_int q \<le> 2 powi (d - 1) * 2 powi (bitlen q)"
      using bq(2) by (intro mult_left_mono) auto
    also have "\<dots> = 2 powi (bitlen p - 1)"
      by (simp add: d_def flip: power_int_add)
    also have "\<dots> \<le> of_int p" by (rule bp(1))
    finally show ?thesis using qpos by (simp add: x pos_le_divide_eq)
  qed
  have hi: "x < 2 powi (d + 1)"
  proof -
    have "of_int p < (2::rat) powi (bitlen p)" by (rule bp(2))
    also have "\<dots> = 2 powi (d + 1) * 2 powi (bitlen q - 1)"
      by (simp add: d_def flip: power_int_add)
    also have "\<dots> \<le> 2 powi (d + 1) * of_int q"
      using bq(1) by (intro mult_left_mono) auto
    finally show ?thesis using qpos by (simp add: x pos_divide_less_eq)
  qed
  show "2 powi (ilog2 x) \<le> x" using lo by (simp add: il)
  show "x < 2 powi (ilog2 x + 1)" using hi by (auto simp add: il not_le)
qed


lemma powi2_less_imp_less: "(2::rat) powi a < 2 powi b \<Longrightarrow> a < b"
proof (rule ccontr)
  assume a: "(2::rat) powi a < 2 powi b" and "\<not> a < b"
  then have "b \<le> a" by simp
  then have "(2::rat) powi b \<le> 2 powi a" by (intro power_int_increasing) auto
  with a show False by simp
qed

lemma ilog2_unique:
  assumes "2 powi e \<le> x" and "x < 2 powi (e + 1)"
  shows "ilog2 x = e"
proof -
  have "(0::rat) < 2 powi e" by simp
  with assms(1) have pos: "0 < x" by linarith
  note b = ilog2_bounds [OF pos]
  have "(2::rat) powi (ilog2 x) < 2 powi (e + 1)" using b(1) assms(2) by linarith
  then have 1: "ilog2 x < e + 1" by (rule powi2_less_imp_less)
  have "(2::rat) powi e < 2 powi (ilog2 x + 1)" using b(2) assms(1) by linarith
  then have 2: "e < ilog2 x + 1" by (rule powi2_less_imp_less)
  from 1 2 show ?thesis by simp
qed

lemma rnd_normal:
  assumes lo: "2 powi e \<le> x" and hi: "x < 2 powi (e + 1)"
    and e: "- 1022 \<le> e" "e \<le> 1023"
    and m: "\<bar>x / 2 powi (e - 52) - of_int m\<bar> < 1 / 2" "m < 2 ^ 53"
  shows "rnd x = Fin (of_int m * 2 powi (e - 52))"
proof -
  have "(0::rat) < 2 powi e" by simp
  with lo have pos: "0 < x" by linarith
  have il: "ilog2 x = e" using lo hi by (rule ilog2_unique)
  have r: "round_half_even (x / 2 powi (e - 52)) = m" using m(1) by (rule rhe_unique)
  have qpos: "(0::rat) < 2 powi (e - 52)" by simp
  have "0 \<le> x / 2 powi (e - 52)" using pos qpos by simp
  then have "round_half_even 0 \<le> round_half_even (x / 2 powi (e - 52))" by (rule rhe_mono)
  then have m0: "0 \<le> m" using r rhe_of_int [of 0] by simp
  have "(of_int m :: rat) < of_int (2 ^ 53)" using m(2) by (simp only: of_int_less_iff)
  then have "(of_int m :: rat) * 2 powi (e - 52) < 2 ^ 53 * 2 powi (e - 52)"
    using qpos by (intro mult_strict_right_mono) simp_all
  also have "\<dots> = 2 powi (e + 1)"
    by (simp add: power_int_add power_int_diff)
  also have "\<dots> \<le> 2 powi 1024" using e(2) by (intro power_int_increasing) auto
  finally have "\<not> 2 powi 1024 \<le> \<bar>(of_int m :: rat) * 2 powi (e - 52)\<bar>"
    using m0 by (simp add: abs_mult)
  then show ?thesis
    using pos e(1) by (simp add: rnd_def il r Let_def max_def)
qed

subsection \<open>The literals of the source as floats\<close>

text \<open>Each literal is given with its fraction in lowest terms, as the simplifier writes it.\<close>

lemma lit_0_7: "lit (7 / 10) = Fin (3152519739159347 / 4503599627370496)"
  unfolding lit_def using rnd_normal [of "- 1" "7 / 10" 6305039478318694] by simp

lemma lit_0_5: "lit (1 / 2) = Fin (1 / 2)"
  unfolding lit_def using rnd_normal [of "- 1" "1 / 2" 4503599627370496] by simp

lemma lit_0_3: "lit (3 / 10) = Fin (5404319552844595 / 18014398509481984)"
  unfolding lit_def using rnd_normal [of "- 2" "3 / 10" 5404319552844595] by simp

lemma lit_0_69: "lit (69 / 100) = Fin (1553741871442821 / 2251799813685248)"
  unfolding lit_def using rnd_normal [of "- 1" "69 / 100" 6214967485771284] by simp

lemma lit_0_49: "lit (49 / 100) = Fin (2206763817411543 / 4503599627370496)"
  unfolding lit_def using rnd_normal [of "- 2" "49 / 100" 8827055269646172] by simp

lemma lit_0_29: "lit (29 / 100) = Fin (5224175567749775 / 18014398509481984)"
  unfolding lit_def using rnd_normal [of "- 2" "29 / 100" 5224175567749775] by simp

lemma lit_0_8: "lit (4 / 5) = Fin (3602879701896397 / 4503599627370496)"
  unfolding lit_def using rnd_normal [of "- 1" "4 / 5" 7205759403792794] by simp

lemma lit_0_15: "lit (3 / 20) = Fin (5404319552844595 / 36028797018963968)"
  unfolding lit_def using rnd_normal [of "- 3" "3 / 20" 5404319552844595] by simp

lemma lit_0_95: "lit (19 / 20) = Fin (4278419646001971 / 4503599627370496)"
  unfolding lit_def using rnd_normal [of "- 1" "19 / 20" 8556839292003942] by simp

lemma lit_0_1: "lit (1 / 10) = Fin (3602879701896397 / 36028797018963968)"
  unfolding lit_def using rnd_normal [of "- 4" "1 / 10" 7205759403792794] by simp

lemma rnd_half: "rnd (1 / 2) = Fin (1 / 2)"
  using lit_0_5 by (simp add: lit_def)

lemma rnd_one: "rnd 1 = Fin 1"
  using rnd_normal [of 0 1 4503599627370496] by simp

lemma rnd_ge_one:
  assumes "1 \<le> x"
  shows "fle (Fin 1) (rnd x)"
proof -
  from assms have pos: "0 < x" by simp
  note b = ilog2_bounds [OF pos]
  have "(2::rat) powi 0 < 2 powi (ilog2 x + 1)" using b(2) assms by simp
  then have "0 < ilog2 x + 1" by (rule powi2_less_imp_less)
  then have e0: "0 \<le> ilog2 x" by simp
  define e where "e = ilog2 x"
  define q :: rat where "q = 2 powi (e - 52)"
  define m where "m = round_half_even (x / q)"
  have qpos: "0 < q" by (simp add: q_def)
  have "2 ^ 52 * q = 2 powi e" by (simp add: q_def power_int_diff)
  then have "2 ^ 52 * q \<le> x" using b(1) by (simp add: e_def)
  then have "of_int (2 ^ 52) \<le> x / q" using qpos by (simp add: pos_le_divide_eq)
  then have "round_half_even (of_int (2 ^ 52)) \<le> m" unfolding m_def by (rule rhe_mono)
  then have m: "2 ^ 52 \<le> m" by (simp only: rhe_of_int)
  then have "(of_int (2 ^ 52) :: rat) \<le> of_int m" by (simp only: of_int_le_iff)
  then have "2 ^ 52 * q \<le> of_int m * q" using qpos by (intro mult_right_mono) simp_all
  moreover have "(1::rat) \<le> 2 powi e" using e0 by (simp add: e_def)
  ultimately have r1: "1 \<le> of_int m * q" using \<open>2 ^ 52 * q = 2 powi e\<close> by simp
  have "rnd x = (if 2 powi 1024 \<le> \<bar>of_int m * q\<bar> then PInf else Fin (of_int m * q))"
    using pos e0 by (simp add: rnd_def Let_def max_def m_def q_def e_def)
  then show ?thesis using r1 by simp
qed

lemma rnd_le_zero:
  assumes "x \<le> 0"
  shows "fle (rnd x) (Fin 0)"
proof (cases "x = 0")
  case True then show ?thesis by (simp add: rnd_def)
next
  case False
  with assms have neg: "x < 0" by simp
  define q :: rat where "q = 2 powi (max (ilog2 \<bar>x\<bar>) (- 1022) - 52)"
  define m where "m = round_half_even (x / q)"
  have qpos: "0 < q" by (simp add: q_def)
  have "x / q \<le> of_int 0" using neg qpos by (simp add: divide_le_0_iff)
  then have "m \<le> round_half_even (of_int 0)" unfolding m_def by (rule rhe_mono)
  then have "m \<le> 0" by (simp only: rhe_of_int)
  then have "(of_int m :: rat) \<le> 0" by simp
  then have r: "of_int m * q \<le> 0" using qpos by (simp add: mult_le_0_iff)
  have "rnd x = (if 2 powi 1024 \<le> \<bar>of_int m * q\<bar> then NInf else Fin (of_int m * q))"
    using neg by (simp add: rnd_def Let_def m_def q_def)
  then show ?thesis using r by simp
qed

lemma clamp_round2:
  "\<exists>k r. 0 \<le> k \<and> k \<le> 100 \<and> py_max (Fin 0) (py_min (Fin 1) (py_round2 a)) = lit (of_int k / 100)
     \<and> lit (of_int k / 100) = Fin r \<and> 0 \<le> r \<and> r \<le> 1"
proof -
  have zero: "lit (of_int 0 / 100) = Fin 0" by (simp add: lit_def rnd_def)
  have one: "lit (of_int 100 / 100) = Fin 1" by (simp add: lit_def rnd_one)
  have k0: "\<exists>k r. 0 \<le> k \<and> k \<le> 100 \<and> Fin 0 = lit (of_int k / 100)
     \<and> lit (of_int k / 100) = Fin r \<and> 0 \<le> r \<and> r \<le> 1"
    using zero by (intro exI [of _ 0] exI [of _ "0::rat"]) simp
  have k1: "\<exists>k r. 0 \<le> k \<and> k \<le> 100 \<and> Fin 1 = lit (of_int k / 100)
     \<and> lit (of_int k / 100) = Fin r \<and> 0 \<le> r \<and> r \<le> 1"
    using one by (intro exI [of _ 100] exI [of _ "1::rat"]) simp
  show ?thesis
  proof (cases a)
    case (Fin x)
    define k where "k = round_half_even (x * 100)"
    define v where "v = rnd (of_int k / 100)"
    have pr: "py_round2 a = v" by (simp add: Fin v_def k_def)
    show ?thesis
    proof (cases v)
      case (Fin r)
      show ?thesis
      proof (cases "0 < r \<and> r < 1")
        case True
        have "0 < k"
        proof (rule ccontr)
          assume "\<not> 0 < k"
          then have "(of_int k / 100 :: rat) \<le> 0" by (simp add: divide_le_0_iff)
          then have "fle (rnd (of_int k / 100)) (Fin 0)" by (rule rnd_le_zero)
          with True Fin show False by (simp add: v_def)
        qed
        moreover have "k < 100"
        proof (rule ccontr)
          assume "\<not> k < 100"
          then have "100 \<le> k" by simp
          then have "(of_int 100 :: rat) \<le> of_int k" by (simp only: of_int_le_iff)
          then have "(1 :: rat) \<le> of_int k / 100" by simp
          then have "fle (Fin 1) (rnd (of_int k / 100))" by (rule rnd_ge_one)
          with True Fin show False by (simp add: v_def)
        qed
        moreover have "py_max (Fin 0) (py_min (Fin 1) (py_round2 a)) = lit (of_int k / 100)"
          using True Fin by (simp add: pr py_max_def py_min_def lit_def v_def [symmetric])
        moreover have "lit (of_int k / 100) = Fin r" using Fin by (simp add: lit_def v_def)
        ultimately show ?thesis using True by (intro exI [of _ k] exI [of _ r]) simp
      next
        case False
        then have "py_max (Fin 0) (py_min (Fin 1) (py_round2 a)) = Fin 0
                 \<or> py_max (Fin 0) (py_min (Fin 1) (py_round2 a)) = Fin 1"
          using Fin by (auto simp add: pr py_max_def py_min_def)
        then show ?thesis using k0 k1 by auto
      qed
    qed (use k0 k1 in \<open>auto simp add: pr py_max_def py_min_def\<close>)
  qed (use k0 k1 in \<open>auto simp add: py_max_def py_min_def\<close>)
qed

lemmas threshold_values = lit_0_7 lit_0_5 lit_0_3

section \<open>Severity\<close>

lemma severity_cases:
  "get_severity_from_score s = ''critical'' \<longleftrightarrow> fge s (lit (7 / 10))"
  "get_severity_from_score s = ''high'' \<longleftrightarrow> fge s (lit (5 / 10)) \<and> \<not> fge s (lit (7 / 10))"
  "get_severity_from_score s = ''medium'' \<longleftrightarrow> fge s (lit (3 / 10)) \<and> \<not> fge s (lit (5 / 10))"
  "get_severity_from_score s = ''low'' \<longleftrightarrow> \<not> fge s (lit (3 / 10))"
  by (cases s; simp add: get_severity_from_score_def fge_def threshold_values)+

lemma severity_total:
  "get_severity_from_score s \<in> {''low'', ''medium'', ''high'', ''critical''}"
  by (simp add: get_severity_from_score_def)

lemma severity_examples:
  "get_severity_from_score (lit (69 / 100)) = ''high''"
  "get_severity_from_score (lit (70 / 100)) = ''critical''"
  "get_severity_from_score (lit (49 / 100)) = ''medium''"
  "get_severity_from_score (lit (50 / 100)) = ''high''"
  "get_severity_from_score (lit (29 / 100)) = ''low''"
  "get_severity_from_score (lit (30 / 100)) = ''medium''"
  by (simp_all add: get_severity_from_score_def fge_def threshold_values
      lit_0_69 lit_0_49 lit_0_29)

lemma analyze_event_severity:
  assumes "calculate_threat_score ev = Inr s"
  shows "\<exists>a ev' w'. analyze_event ev w = Inr (a, ev', w')
           \<and> severity ev' = Some (get_severity_from_score s) \<and> threat_score ev' = Some s"
  using assms by (simp add: analyze_event_def Let_def split: prod.splits)

lemma example_file_event_score:
  "calculate_threat_score example_file_event = Inr (Fin (1 / 2))"
  by (simp add: calculate_threat_score_def example_file_event_def EVENT_BASE_SCORES_def
      critical_keywords_def lower_def connection_factor_def fgt_def py_min_def py_max_def
      lit_0_5 rnd_half round_half_even_def sublist_code(3))

lemma example_file_event_titled_score:
  "calculate_threat_score
     (example_file_event\<lparr>title := Some ''File modified: A.TXT'', severity := Some ''critical''\<rparr>)
   = Inr (Fin (1 / 2))"
  by (simp add: calculate_threat_score_def example_file_event_def EVENT_BASE_SCORES_def
      critical_keywords_def lower_def lower_char_def connection_factor_def fgt_def py_min_def
      py_max_def lit_0_5 rnd_half round_half_even_def sublist_code(3))

text \<open>
  C2. The severity label is a total function of the score alone, with exactly four values.
  The breakpoints are the floats written 0.7, 0.5 and 0.3, tested in that order: critical
  from 0.7, high from 0.5 and below 0.7, medium from 0.3 and below 0.5, low below 0.3 (a
  NaN, which no test accepts, is low). The six boundary scores of the specification get
  the labels it gives. Whatever else two observations carry, when the scorer gives them
  the same score the analyzer writes the same severity onto both.
\<close>

theorem severity_is_partition_by_score:
  "(\<forall>s. get_severity_from_score s \<in> {''low'', ''medium'', ''high'', ''critical''})
   \<and> (\<forall>s. get_severity_from_score s = ''critical'' \<longleftrightarrow> fge s (lit (7 / 10)))
   \<and> (\<forall>s. get_severity_from_score s = ''high''
          \<longleftrightarrow> fge s (lit (5 / 10)) \<and> \<not> fge s (lit (7 / 10)))
   \<and> (\<forall>s. get_severity_from_score s = ''medium''
          \<longleftrightarrow> fge s (lit (3 / 10)) \<and> \<not> fge s (lit (5 / 10)))
   \<and> (\<forall>s. get_severity_from_score s = ''low'' \<longleftrightarrow> \<not> fge s (lit (3 / 10)))
   \<and> get_severity_from_score (lit (69 / 100)) = ''high''
   \<and> get_severity_from_score (lit (70 / 100)) = ''critical''
   \<and> get_severity_from_score (lit (49 / 100)) = ''medium''
   \<and> get_severity_from_score (lit (50 / 100)) = ''high''
   \<and> get_severity_from_score (lit (29 / 100)) = ''low''
   \<and> get_severity_from_score (lit (30 / 100)) = ''medium''
   \<and> (\<forall>e1 e2 w1 w2 s.
         calculate_threat_score e1 = Inr s \<and> calculate_threat_score e2 = Inr s \<longrightarrow>
         (\<exists>a1 e1' w1' a2 e2' w2'.
            analyze_event e1 w1 = Inr (a1, e1', w1') \<and> analyze_event e2 w2 = Inr (a2, e2', w2')
            \<and> severity e1' = Some (get_severity_from_score s)
            \<and> severity e2' = severity e1'))"
proof -
  have eq: "\<exists>a1 e1' w1' a2 e2' w2'.
            analyze_event e1 w1 = Inr (a1, e1', w1') \<and> analyze_event e2 w2 = Inr (a2, e2', w2')
            \<and> severity e1' = Some (get_severity_from_score s)
            \<and> severity e2' = severity e1'"
    if "calculate_threat_score e1 = Inr s" and "calculate_threat_score e2 = Inr s"
    for e1 e2 w1 w2 s
    using analyze_event_severity [OF that(1), of w1] analyze_event_severity [OF that(2), of w2]
    by auto
  show ?thesis
    using severity_total severity_cases severity_examples eq by (intro conjI allI impI) auto
qed

theorem severity_is_partition_by_score_witness:
  "calculate_threat_score example_file_event = Inr (Fin (1 / 2))
   \<and> calculate_threat_score
       (example_file_event\<lparr>title := Some ''File modified: A.TXT'', severity := Some ''critical''\<rparr>)
     = Inr (Fin (1 / 2))
   \<and> (\<exists>a1 e1' w1' a2 e2' w2'.
         analyze_event example_file_event example_world = Inr (a1, e1', w1')
         \<and> analyze_event
              (example_file_event\<lparr>title := Some ''File modified: A.TXT'',
                 severity := Some ''critical''\<rparr>) example_world = Inr (a2, e2', w2')
         \<and> severity e1' = Some ''high'' \<and> severity e2' = Some ''high'')"
proof -
  note h1 = example_file_event_score and h2 = example_file_event_titled_score
  have sev: "get_severity_from_score (Fin (1 / 2)) = ''high''"
    using severity_is_partition_by_score lit_0_5 by simp
  have "\<exists>a1 e1' w1' a2 e2' w2'.
         analyze_event example_file_event example_world = Inr (a1, e1', w1')
         \<and> analyze_event
              (example_file_event\<lparr>title := Some ''File modified: A.TXT'',
                 severity := Some ''critical''\<rparr>) example_world = Inr (a2, e2', w2')
         \<and> severity e1' = Some (get_severity_from_score (Fin (1 / 2)))
         \<and> severity e2' = severity e1'"
    using severity_is_partition_by_score h1 h2 by blast
  then show ?thesis using h1 h2 sev by auto
qed

section \<open>Scorer\<close>

lemma sublist_extend_right: "sublist k a \<Longrightarrow> sublist k (a @ b)"
  by (meson sublist_append_rightI sublist_order.order_trans)

lemma char_eq_char_of: "c = char_of (n::nat) \<longleftrightarrow> take_bit 8 n = of_char c"
  using char_of_eq_iff [of n c] by auto

lemma keyword_loop_once:
  "keyword_loop kws text score =
     (if \<exists>kw\<in>set kws. sublist kw text then py_min (fadd score (lit (15 / 100))) (Fin 1)
      else score)"
  by (induction kws) auto

lemma sum_0_8_0_15:
  "rnd (34227357168015771 / 36028797018963968) = Fin (8556839292003943 / 9007199254740992)"
  using rnd_normal [of "- 1" "34227357168015771 / 36028797018963968" 8556839292003943] by simp

lemma boosted_0_8: "py_min (fadd (lit (8 / 10)) (lit (15 / 100))) (Fin 1)
   = Fin (8556839292003943 / 9007199254740992)"
  by (simp add: lit_0_8 lit_0_15 sum_0_8_0_15 py_min_def)

lemma round2_boosted: "py_round2 (Fin (8556839292003943 / 9007199254740992)) = lit (95 / 100)"
proof -
  have "round_half_even (8556839292003943 / 9007199254740992 * 100) = 95"
    by (rule rhe_unique) simp
  then show ?thesis by (simp add: lit_def)
qed

lemma sum_boosted_0_1:
  "rnd (37830236869912169 / 36028797018963968) = Fin (4728779608739021 / 4503599627370496)"
  using rnd_normal [of 0 "37830236869912169 / 36028797018963968" 4728779608739021] by simp

lemma keyword_score:
  assumes et: "event_type ev = Some ''suspicious_process''"
    and kw: "title ev = Some t" "\<exists>kw\<in>set critical_keywords. sublist kw (lower t)"
    and prior: "threat_score ev = None \<or> threat_score ev = Some (Fin 0)"
  shows "calculate_threat_score ev =
    (case connection_factor (raw_data ev) (Fin (8556839292003943 / 9007199254740992)) of
       Inl e \<Rightarrow> Inl e
     | Inr score3 \<Rightarrow> Inr (py_max (Fin 0) (py_min (Fin 1) (py_round2 score3))))"
proof -
  from kw(2) obtain k where k: "k \<in> set critical_keywords" "sublist k (lower t)" by auto
  define body where
    "body = lower t @ '' '' @ lower (case description ev of None \<Rightarrow> [] | Some d \<Rightarrow> d)"
  have "sublist k body" unfolding body_def using k(2) by (rule sublist_extend_right)
  with k(1) have any: "\<exists>kw\<in>set critical_keywords. sublist kw body" by auto
  have base: "EVENT_BASE_SCORES ''suspicious_process'' = Some (lit (8 / 10))"
    by (simp add: EVENT_BASE_SCORES_def)
  have s1: "(if fgt (case threat_score ev of None \<Rightarrow> Fin 0 | Some s \<Rightarrow> s) (Fin 0)
             then fdiv2 (fadd (lit (8 / 10)) (case threat_score ev of None \<Rightarrow> Fin 0 | Some s \<Rightarrow> s))
             else lit (8 / 10)) = lit (8 / 10)"
    using prior by (auto simp add: fgt_def)
  show ?thesis
    unfolding calculate_threat_score_def Let_def
    by (simp only: et option.case base kw(1) s1 body_def [symmetric] keyword_loop_once any if_True
        boosted_0_8)
qed

lemma keyword_example:
  assumes et: "event_type ev = Some ''suspicious_process''"
    and kw: "title ev = Some t" "\<exists>kw\<in>set critical_keywords. sublist kw (lower t)"
    and prior: "threat_score ev = None \<or> threat_score ev = Some (Fin 0)"
    and nb: "no_connection_bonus (raw_data ev)"
  shows "calculate_threat_score ev = Inr (lit (95 / 100))"
proof -
  have cf: "connection_factor (raw_data ev) x = Inr x" for x
    using nb by (auto simp add: connection_factor_def no_connection_bonus_def
        split: option.splits raw.splits sum.splits)
  have fin: "py_max (Fin 0) (py_min (Fin 1) (lit (95 / 100))) = lit (95 / 100)"
    by (simp add: lit_0_95 py_max_def py_min_def)
  show ?thesis
    by (simp only: keyword_score [OF et kw prior] cf sum.case round2_boosted fin)
qed

lemma example_mimikatz_text:
  "\<exists>kw\<in>set critical_keywords. sublist kw (lower ''Suspicious process detected: Mimikatz.exe'')"
  by (simp add: critical_keywords_def lower_def lower_char_def sublist_code(3) char_eq_char_of)

lemma example_mimikatz_score: "calculate_threat_score example_mimikatz_event = Inr (Fin 1)"
proof -
  have "calculate_threat_score example_mimikatz_event =
    (case connection_factor (raw_data example_mimikatz_event) (Fin (8556839292003943 / 9007199254740992)) of
       Inl e \<Rightarrow> Inl e
     | Inr score3 \<Rightarrow> Inr (py_max (Fin 0) (py_min (Fin 1) (py_round2 score3))))"
    by (rule keyword_score [where t = "''Suspicious process detected: Mimikatz.exe''"])
       (simp_all add: example_mimikatz_event_def example_mimikatz_text)
  also have "\<dots> = Inr (Fin 1)"
    by (simp add: example_mimikatz_event_def connection_factor_def py_min_def py_max_def
      lit_0_1 sum_boosted_0_1 round_half_even_def rnd_one)
  finally show ?thesis .
qed

lemma keyword_independent_of_count:
  assumes "mentions_critical_keyword e1" and "mentions_critical_keyword e2"
    and "e2 = e1\<lparr>title := title e2, description := description e2\<rparr>"
  shows "calculate_threat_score e1 = calculate_threat_score e2"
proof -
  have "event_type e2 = event_type e1" "threat_score e2 = threat_score e1"
    "raw_data e2 = raw_data e1"
    by (subst assms(3), simp)+
  then show ?thesis
    using assms(1,2)
    by (simp add: calculate_threat_score_def Let_def keyword_loop_once
        mentions_critical_keyword_def)
qed

text \<open>
  C3. Whenever the scorer returns a score, the score is a finite float between 0.0 and 1.0,
  and it is the float of a two-decimal number: the float nearest to k/100 for an integer k
  from 0 to 100.
\<close>

theorem score_in_unit_interval_two_decimals:
  assumes "calculate_threat_score ev = Inr s"
  shows "\<exists>k r. 0 \<le> k \<and> k \<le> 100 \<and> s = lit (of_int k / 100) \<and> s = Fin r \<and> 0 \<le> r \<and> r \<le> 1"
proof -
  from assms obtain a where "s = py_max (Fin 0) (py_min (Fin 1) (py_round2 a))"
    by (auto simp add: calculate_threat_score_def Let_def split: sum.splits)
  then show ?thesis using clamp_round2 [of a] by auto
qed

theorem score_in_unit_interval_two_decimals_witness:
  "calculate_threat_score example_file_event = Inr (Fin (1 / 2))
   \<and> (\<exists>k r. 0 \<le> k \<and> k \<le> 100 \<and> Fin (1 / 2) = lit (of_int k / 100)
          \<and> Fin (1 / 2) = Fin r \<and> 0 \<le> r \<and> r \<le> 1)"
  using score_in_unit_interval_two_decimals [OF example_file_event_score]
    example_file_event_score by simp

text \<open>
  C4, as amended. The keyword loop adds the bonus of 0.15 (capped at 1.0) once when at least
  one keyword of the list occurs in the text and not at all otherwise, so two observations
  that differ only in title and description and both mention a keyword get the same score,
  however many keywords each mentions. An observation of kind suspicious_process whose
  title contains a critical keyword (case-insensitively), whose prior threat_score is
  absent or zero, and whose evidence does not report more than 50 total connections is
  scored 0.95, and 0.95 is critical.
\<close>

theorem keyword_bonus_applied_once:
  "(\<forall>kws body score.
      keyword_loop kws body score =
        (if \<exists>kw\<in>set kws. sublist kw body then py_min (fadd score (lit (15 / 100))) (Fin 1)
         else score))
   \<and> (\<forall>e1 e2.
        mentions_critical_keyword e1 \<and> mentions_critical_keyword e2
        \<and> e2 = e1\<lparr>title := title e2, description := description e2\<rparr>
        \<longrightarrow> calculate_threat_score e1 = calculate_threat_score e2)
   \<and> (\<forall>ev t.
        event_type ev = Some ''suspicious_process''
        \<and> title ev = Some t \<and> (\<exists>kw\<in>set critical_keywords. sublist kw (lower t))
        \<and> (threat_score ev = None \<or> threat_score ev = Some (Fin 0))
        \<and> no_connection_bonus (raw_data ev)
        \<longrightarrow> calculate_threat_score ev = Inr (lit (95 / 100))
            \<and> get_severity_from_score (lit (95 / 100)) = ''critical'')"
proof (intro conjI allI impI)
  fix kws body score
  show "keyword_loop kws body score =
        (if \<exists>kw\<in>set kws. sublist kw body then py_min (fadd score (lit (15 / 100))) (Fin 1)
         else score)"
    by (rule keyword_loop_once)
next
  fix e1 e2
  assume "mentions_critical_keyword e1 \<and> mentions_critical_keyword e2
        \<and> e2 = e1\<lparr>title := title e2, description := description e2\<rparr>"
  then show "calculate_threat_score e1 = calculate_threat_score e2"
    using keyword_independent_of_count [of e1 e2] by blast
next
  fix ev :: event and t
  assume a: "event_type ev = Some ''suspicious_process''
        \<and> title ev = Some t \<and> (\<exists>kw\<in>set critical_keywords. sublist kw (lower t))
        \<and> (threat_score ev = None \<or> threat_score ev = Some (Fin 0))
        \<and> no_connection_bonus (raw_data ev)"
  then show "calculate_threat_score ev = Inr (lit (95 / 100))"
    using keyword_example [of ev t] by blast
  show "get_severity_from_score (lit (95 / 100)) = ''critical''"
    by (simp add: get_severity_from_score_def fge_def lit_0_95 lit_0_7)
qed

text \<open>
  The claim as it was written fails on an observation of that kind whose evidence reports
  80 connections: the connection bonus is added as well, and the score is 1.0.
\<close>

theorem keyword_example_counterexample:
  "event_type example_mimikatz_event = Some ''suspicious_process''
   \<and> title example_mimikatz_event = Some ''Suspicious process detected: Mimikatz.exe''
   \<and> ''mimikatz'' \<in> set critical_keywords
   \<and> sublist ''mimikatz'' (lower ''Suspicious process detected: Mimikatz.exe'')
   \<and> threat_score example_mimikatz_event = Some (Fin 0)
   \<and> calculate_threat_score example_mimikatz_event = Inr (Fin 1)
   \<and> calculate_threat_score example_mimikatz_event \<noteq> Inr (lit (95 / 100))"
  by (simp add: example_mimikatz_score lit_0_95)
     (simp add: example_mimikatz_event_def critical_keywords_def lower_def lower_char_def
        sublist_code(3) char_eq_char_of)

theorem keyword_bonus_applied_once_witness:
  "event_type (example_mimikatz_event\<lparr>raw_data := None\<rparr>) = Some ''suspicious_process''
   \<and> title (example_mimikatz_event\<lparr>raw_data := None\<rparr>)
       = Some ''Suspicious process detected: Mimikatz.exe''
   \<and> (\<exists>kw\<in>set critical_keywords.
         sublist kw (lower ''Suspicious process detected: Mimikatz.exe''))
   \<and> threat_score (example_mimikatz_event\<lparr>raw_data := None\<rparr>) = Some (Fin 0)
   \<and> no_connection_bonus (raw_data (example_mimikatz_event\<lparr>raw_data := None\<rparr>))
   \<and> calculate_threat_score (example_mimikatz_event\<lparr>raw_data := None\<rparr>) = Inr (lit (95 / 100))
   \<and> get_severity_from_score (lit (95 / 100)) = ''critical''"
proof -
  have h: "event_type (example_mimikatz_event\<lparr>raw_data := None\<rparr>) = Some ''suspicious_process''
    \<and> title (example_mimikatz_event\<lparr>raw_data := None\<rparr>)
       = Some ''Suspicious process detected: Mimikatz.exe''
    \<and> (\<exists>kw\<in>set critical_keywords.
         sublist kw (lower ''Suspicious process detected: Mimikatz.exe''))
    \<and> (threat_score (example_mimikatz_event\<lparr>raw_data := None\<rparr>) = None
       \<or> threat_score (example_mimikatz_event\<lparr>raw_data := None\<rparr>) = Some (Fin 0))
    \<and> no_connection_bonus (raw_data (example_mimikatz_event\<lparr>raw_data := None\<rparr>))"
    using example_mimikatz_text
    by (simp add: example_mimikatz_event_def no_connection_bonus_def)
  from keyword_bonus_applied_once have
    "\<forall>ev t.
        event_type ev = Some ''suspicious_process''
        \<and> title ev = Some t \<and> (\<exists>kw\<in>set critical_keywords. sublist kw (lower t))
        \<and> (threat_score ev = None \<or> threat_score ev = Some (Fin 0))
        \<and> no_connection_bonus (raw_data ev)
        \<longrightarrow> calculate_threat_score ev = Inr (lit (95 / 100))
            \<and> get_severity_from_score (lit (95 / 100)) = ''critical''"
    by (elim conjE)
  from this [rule_format, OF h] h show ?thesis
    by (simp add: example_mimikatz_event_def)
qed

section \<open>Analyzer\<close>

lemma save_event_tables:
  "alerts (save_event ev w) = alerts w"
  "system_metrics (save_event ev w) = system_metrics w"
  "session_factory (save_event ev w) = session_factory w"
  "commit_fails (save_event ev w) = commit_fails w"
  "utc_clock (save_event ev w) = utc_clock w"
  "clock_reads (save_event ev w) = clock_reads w"
  "uuid4 (save_event ev w) = uuid4 w"
  "uuid_drawn (save_event ev w) = uuid_drawn w + (if session_factory w then 1 else 0)"
  by (simp_all add: save_event_def generate_id_def logger_def Let_def)

lemma save_event_journal:
  "journal (save_event ev w) =
     (if session_factory w then journal w @ [AddEvent (SecurityEvent_of ev (uuid4 w (uuid_drawn w)))]
      else journal w)"
  by (simp add: save_event_def generate_id_def logger_def Let_def)

lemma save_event_rows:
  "security_events (save_event ev w) =
     (if session_factory w \<and> \<not> commit_fails w (length (journal w))
      then security_events w @ [SecurityEvent_of ev (uuid4 w (uuid_drawn w))]
      else security_events w)"
  by (simp add: save_event_def generate_id_def logger_def Let_def)

lemma save_event_logger:
  "security_events (save_event ev (logger r w)) = security_events (save_event ev w)"
  "journal (save_event ev (logger r w)) = journal (save_event ev w)"
  by (simp_all add: save_event_rows save_event_journal) (simp_all add: logger_def)

lemma create_alert_result:
  "fst (create_alert ev w) = alert_data_of ev (uuid4 w (uuid_drawn w)) (utc_clock w (clock_reads w))"
  by (simp add: create_alert_def generate_id_def now_utc_isoformat_def Let_def)

lemma create_alert_events:
  "security_events (snd (create_alert ev w)) = security_events w"
  by (simp add: create_alert_def generate_id_def now_utc_isoformat_def logger_def Let_def)

lemma create_alert_journal:
  "journal (snd (create_alert ev w)) =
     (if session_factory w
      then journal w @ [AddAlert (Alert_of (alert_data_of ev (uuid4 w (uuid_drawn w))
                                              (utc_clock w (clock_reads w))))]
      else journal w)"
  by (simp add: create_alert_def generate_id_def now_utc_isoformat_def logger_def Let_def)

lemma create_alert_failed:
  assumes "\<not> session_factory w \<or> commit_fails w (length (journal w))"
  shows "alerts (snd (create_alert ev w)) = alerts w"
    and "last (logged (snd (create_alert ev w))) = LogError ''Failed to create alert''"
  using assms
  by (auto simp add: create_alert_def generate_id_def now_utc_isoformat_def logger_def Let_def)

lemma create_alert_stored:
  assumes "session_factory w" "\<not> commit_fails w (length (journal w))"
  shows "alerts (snd (create_alert ev w)) = alerts w @ [Alert_of (fst (create_alert ev w))]"
  using assms
  by (auto simp add: create_alert_def generate_id_def now_utc_isoformat_def logger_def Let_def)

lemma analyze_event_unfold:
  assumes "calculate_threat_score ev = Inr s"
  shows "analyze_event ev w =
     (let ev1 = ev\<lparr>threat_score := Some s, severity := Some (get_severity_from_score s)\<rparr>;
          w2 = save_event ev1 (logger (LogInfo ''Event analyzed'') w)
      in if fge s (lit (5 / 10))
         then Inr (Some (fst (create_alert ev1 w2)), ev1, snd (create_alert ev1 w2))
         else Inr (None, ev1, w2))"
  using assms by (simp add: analyze_event_def ALERT_THRESHOLD_def Let_def split: prod.splits)

lemma analyze_event_alert:
  assumes "calculate_threat_score ev = Inr s" and "fge s (lit (5 / 10))"
  shows "\<exists>w'. analyze_event ev w =
       Inr (Some (alert_data_of
                    (ev\<lparr>threat_score := Some s, severity := Some (get_severity_from_score s)\<rparr>)
                    (uuid4 w (uuid_drawn w + (if session_factory w then 1 else 0)))
                    (utc_clock w (clock_reads w))),
            ev\<lparr>threat_score := Some s, severity := Some (get_severity_from_score s)\<rparr>, w')
     \<and> (\<not> session_factory w \<or> commit_fails w (Suc (length (journal w))) \<longrightarrow>
          alerts w' = alerts w \<and> last (logged w') = LogError ''Failed to create alert'')
     \<and> (session_factory w \<and> \<not> commit_fails w (Suc (length (journal w))) \<longrightarrow>
          alerts w' = alerts w @
            [Alert_of (alert_data_of
                    (ev\<lparr>threat_score := Some s, severity := Some (get_severity_from_score s)\<rparr>)
                    (uuid4 w (uuid_drawn w + 1))
                    (utc_clock w (clock_reads w)))])"
proof -
  define ev1 where "ev1 = ev\<lparr>threat_score := Some s, severity := Some (get_severity_from_score s)\<rparr>"
  define w2 where "w2 = save_event ev1 (logger (LogInfo ''Event analyzed'') w)"
  have an: "analyze_event ev w = Inr (Some (fst (create_alert ev1 w2)), ev1, snd (create_alert ev1 w2))"
    using analyze_event_unfold [OF assms(1), of w] assms(2) by (simp add: Let_def ev1_def w2_def)
  have sf: "session_factory w2 = session_factory w"
    and cf: "commit_fails w2 = commit_fails w"
    and al: "alerts w2 = alerts w"
    and ud: "uuid_drawn w2 = uuid_drawn w + (if session_factory w then 1 else 0)"
    and u4: "uuid4 w2 = uuid4 w"
    and uc: "utc_clock w2 = utc_clock w"
    and cr: "clock_reads w2 = clock_reads w"
    by (simp_all add: w2_def save_event_tables logger_def)
  have jl: "length (journal w2) = (if session_factory w then Suc (length (journal w)) else length (journal w))"
    by (simp add: w2_def save_event_journal logger_def)
  have res: "fst (create_alert ev1 w2) = alert_data_of ev1
       (uuid4 w (uuid_drawn w + (if session_factory w then 1 else 0))) (utc_clock w (clock_reads w))"
    by (simp add: create_alert_result u4 ud uc cr)
  have fail: "alerts (snd (create_alert ev1 w2)) = alerts w
              \<and> last (logged (snd (create_alert ev1 w2))) = LogError ''Failed to create alert''"
    if "\<not> session_factory w \<or> commit_fails w (Suc (length (journal w)))"
  proof -
    from that have "\<not> session_factory w2 \<or> commit_fails w2 (length (journal w2))"
      by (auto simp add: sf cf jl)
    from create_alert_failed [OF this, of ev1] show ?thesis by (simp add: al)
  qed
  have ok: "alerts (snd (create_alert ev1 w2)) = alerts w @ [Alert_of (alert_data_of ev1
       (uuid4 w (uuid_drawn w + 1)) (utc_clock w (clock_reads w)))]"
    if "session_factory w \<and> \<not> commit_fails w (Suc (length (journal w)))"
  proof -
    from that have "session_factory w2" "\<not> commit_fails w2 (length (journal w2))"
      by (auto simp add: sf cf jl)
    from create_alert_stored [OF this, of ev1] that show ?thesis by (simp add: al res)
  qed
  show ?thesis
    unfolding ev1_def [symmetric] using an res fail ok by auto
qed

lemma cycle_counts_single_alert:
  assumes "calculate_threat_score ev = Inr s" and "fge s (lit (5 / 10))"
    and "process_scan h = Inr [ev]"
  shows "total_alerts (fst (run_collector_cycle Process h (eng, w))) = Suc (total_alerts eng)"
proof -
  from analyze_event_alert [OF assms(1,2), of w] obtain a ev1 w'
    where "analyze_event ev w = Inr (Some a, ev1, w')" by blast
  then show ?thesis
    using assms(3)
    by (simp add: run_collector_cycle_def collect_def analyze_batch_def Let_def)
qed

lemma example_score_reaches_threshold: "fge (Fin (1 / 2)) (lit (5 / 10))"
  by (simp add: fge_def lit_0_5)

text \<open>
  C1. For every observation the scorer scores, \<open>analyze_event\<close> returns normally, having
  written the score and its severity onto the observation. The step that persists the
  observation does not depend on the score: the stored observations afterwards are those
  that \<open>_save_event\<close> leaves, the row is handed to a commit whenever a session can be
  obtained, and it is in the table whenever that commit does not raise. An alert is
  returned exactly when the score is at least 0.5; below 0.5 the result is None.
\<close>

theorem analyze_persists_always_alerts_iff_threshold:
  assumes "calculate_threat_score ev = Inr s"
  shows "\<exists>a w'.
     analyze_event ev w =
       Inr (a, ev\<lparr>threat_score := Some s, severity := Some (get_severity_from_score s)\<rparr>, w')
     \<and> (a \<noteq> None \<longleftrightarrow> fge s (lit (5 / 10)))
     \<and> security_events w' =
         security_events
           (save_event (ev\<lparr>threat_score := Some s, severity := Some (get_severity_from_score s)\<rparr>) w)
     \<and> (session_factory w \<longrightarrow>
          (\<exists>later. journal w' = journal w @
             AddEvent (SecurityEvent_of
                (ev\<lparr>threat_score := Some s, severity := Some (get_severity_from_score s)\<rparr>)
                (uuid4 w (uuid_drawn w))) # later))
     \<and> (session_factory w \<and> \<not> commit_fails w (length (journal w)) \<longrightarrow>
          security_events w' = security_events w @
            [SecurityEvent_of
               (ev\<lparr>threat_score := Some s, severity := Some (get_severity_from_score s)\<rparr>)
               (uuid4 w (uuid_drawn w))])"
proof -
  define ev1 where "ev1 = ev\<lparr>threat_score := Some s, severity := Some (get_severity_from_score s)\<rparr>"
  define w2 where "w2 = save_event ev1 (logger (LogInfo ''Event analyzed'') w)"
  have rows: "security_events w2 = security_events (save_event ev1 w)"
    by (simp add: w2_def save_event_logger)
  have jr: "journal w2 = journal (save_event ev1 w)"
    by (simp add: w2_def save_event_logger)
  have sf: "session_factory w2 = session_factory w"
    by (simp add: w2_def save_event_tables logger_def)
  show ?thesis
  proof (cases "fge s (lit (5 / 10))")
    case True
    then have "analyze_event ev w = Inr (Some (fst (create_alert ev1 w2)), ev1, snd (create_alert ev1 w2))"
      using analyze_event_unfold [OF assms, of w] by (simp add: Let_def ev1_def w2_def)
    moreover have "security_events (snd (create_alert ev1 w2)) = security_events (save_event ev1 w)"
      by (simp add: create_alert_events rows)
    moreover have "session_factory w \<Longrightarrow> \<exists>later. journal (snd (create_alert ev1 w2)) =
        journal w @ AddEvent (SecurityEvent_of ev1 (uuid4 w (uuid_drawn w))) # later"
      by (simp add: create_alert_journal jr sf save_event_journal)
    ultimately show ?thesis
      using True by (simp add: ev1_def [symmetric] save_event_rows)
  next
    case False
    then have "analyze_event ev w = Inr (None, ev1, w2)"
      using analyze_event_unfold [OF assms, of w] by (simp add: Let_def ev1_def w2_def)
    then show ?thesis
      using False by (simp add: ev1_def [symmetric] rows jr save_event_rows save_event_journal)
  qed
qed

theorem analyze_persists_always_alerts_iff_threshold_witness:
  "calculate_threat_score example_file_event = Inr (Fin (1 / 2))
   \<and> session_factory example_world
   \<and> \<not> commit_fails example_world (length (journal example_world))
   \<and> (\<exists>a ev1 w'. analyze_event example_file_event example_world = Inr (a, ev1, w')
         \<and> a \<noteq> None
         \<and> map se_id (security_events w') = [''e1'']
         \<and> map se_threat_score (security_events w') = [Fin (1 / 2)])"
proof -
  have sf: "session_factory example_world"
    and cf: "\<not> commit_fails example_world (length (journal example_world))"
    and se: "security_events example_world = []"
    by (simp_all add: example_world_def)
  from analyze_persists_always_alerts_iff_threshold
    [OF example_file_event_score, of example_world]
  obtain a w' where
    1: "analyze_event example_file_event example_world =
       Inr (a, example_file_event\<lparr>threat_score := Some (Fin (1 / 2)),
               severity := Some (get_severity_from_score (Fin (1 / 2)))\<rparr>, w')"
    and 2: "a \<noteq> None \<longleftrightarrow> fge (Fin (1 / 2)) (lit (5 / 10))"
    and 3: "session_factory example_world
            \<and> \<not> commit_fails example_world (length (journal example_world)) \<longrightarrow>
          security_events w' = security_events example_world @
            [SecurityEvent_of
               (example_file_event\<lparr>threat_score := Some (Fin (1 / 2)),
                  severity := Some (get_severity_from_score (Fin (1 / 2)))\<rparr>)
               (uuid4 example_world (uuid_drawn example_world))]"
    by blast
  from 3 sf cf se have "security_events w' =
            [SecurityEvent_of
               (example_file_event\<lparr>threat_score := Some (Fin (1 / 2)),
                  severity := Some (get_severity_from_score (Fin (1 / 2)))\<rparr>)
               (uuid4 example_world (uuid_drawn example_world))]"
    by simp
  then have 4: "map se_id (security_events w') = [''e1'']
         \<and> map se_threat_score (security_events w') = [Fin (1 / 2)]"
    by (simp add: SecurityEvent_of_def example_file_event_def)
  from 2 have 5: "a \<noteq> None" using example_score_reaches_threshold by simp
  show ?thesis
    using example_file_event_score sf cf 1 4 5 by simp
qed

text \<open>
  C10. For every observation whose score is at least 0.5, \<open>analyze_event\<close> returns the
  alert dict built from the scored observation, a fresh id and the clock, whatever the
  database does. When no session can be obtained or the commit of the alert row raises,
  no alert row is stored and the last thing logged is the error of \<open>_create_alert\<close>; the
  alert is returned all the same, and a cycle of the orchestrator over a batch made of
  that observation adds one to its alert counter.
\<close>

theorem alert_returned_even_if_not_stored:
  assumes "calculate_threat_score ev = Inr s" and "fge s (lit (5 / 10))"
  shows "\<exists>w'. analyze_event ev w =
       Inr (Some (alert_data_of
                    (ev\<lparr>threat_score := Some s, severity := Some (get_severity_from_score s)\<rparr>)
                    (uuid4 w (uuid_drawn w + (if session_factory w then 1 else 0)))
                    (utc_clock w (clock_reads w))),
            ev\<lparr>threat_score := Some s, severity := Some (get_severity_from_score s)\<rparr>, w')
     \<and> (\<not> session_factory w \<or> commit_fails w (Suc (length (journal w))) \<longrightarrow>
          alerts w' = alerts w \<and> last (logged w') = LogError ''Failed to create alert'')
     \<and> (\<forall>h eng. process_scan h = Inr [ev] \<longrightarrow>
          total_alerts (fst (run_collector_cycle Process h (eng, w))) = Suc (total_alerts eng))"
  using analyze_event_alert [OF assms, of w] cycle_counts_single_alert [OF assms, of _ _ w]
  by blast

theorem alert_returned_even_if_not_stored_witness:
  "calculate_threat_score example_file_event = Inr (Fin (1 / 2))
   \<and> fge (Fin (1 / 2)) (lit (5 / 10))
   \<and> commit_fails example_failing_world (Suc (length (journal example_failing_world)))
   \<and> (\<exists>a ev1 w'. analyze_event example_file_event example_failing_world = Inr (Some a, ev1, w')
         \<and> al_threat_score a = Fin (1 / 2) \<and> al_severity a = ''high''
         \<and> alerts w' = [] \<and> last (logged w') = LogError ''Failed to create alert'')"
proof -
  have cf: "commit_fails example_failing_world (Suc (length (journal example_failing_world)))"
    by (simp add: example_failing_world_def example_world_def)
  have sev: "get_severity_from_score (Fin (1 / 2)) = ''high''"
    by (simp add: get_severity_from_score_def fge_def lit_0_5 lit_0_7)
  have al: "alerts example_failing_world = []"
    by (simp add: example_failing_world_def example_world_def)
  from alert_returned_even_if_not_stored
    [OF example_file_event_score example_score_reaches_threshold, of example_failing_world]
  obtain w' where
    1: "analyze_event example_file_event example_failing_world =
       Inr (Some (alert_data_of
                    (example_file_event\<lparr>threat_score := Some (Fin (1 / 2)),
                       severity := Some (get_severity_from_score (Fin (1 / 2)))\<rparr>)
                    (uuid4 example_failing_world (uuid_drawn example_failing_world
                       + (if session_factory example_failing_world then 1 else 0)))
                    (utc_clock example_failing_world (clock_reads example_failing_world))),
            example_file_event\<lparr>threat_score := Some (Fin (1 / 2)),
               severity := Some (get_severity_from_score (Fin (1 / 2)))\<rparr>, w')"
    and 2: "\<not> session_factory example_failing_world
            \<or> commit_fails example_failing_world (Suc (length (journal example_failing_world))) \<longrightarrow>
          alerts w' = alerts example_failing_world
          \<and> last (logged w') = LogError ''Failed to create alert''"
    by blast
  from 2 cf al have 3: "alerts w' = [] \<and> last (logged w') = LogError ''Failed to create alert''"
    by simp
  show ?thesis
    using example_file_event_score example_score_reaches_threshold cf 1 3
    by (simp add: alert_data_of_def sev)
qed

section \<open>Network collector\<close>

lemma check_port_scan_fires:
  "fst (check_port_scan ports w) \<noteq> None \<longleftrightarrow> 20 \<le> length ports \<and> 20 \<le> card (set ports)"
  by (simp add: check_port_scan_def Let_def split: prod.splits)

lemma check_port_scan_finding:
  assumes "fst (check_port_scan ports w) = Some e"
  shows "event_type e = Some ''port_scan'' \<and> severity e = Some ''high''
     \<and> threat_score e = Some (lit (7 / 10))
     \<and> raw_data e = Some (RawDict [(''unique_ports'', JInt (int (card (set ports)))),
                                   (''total_connections'', JInt (int (length ports)))])"
  using assms by (auto simp add: check_port_scan_def Let_def split: prod.splits if_splits)

lemma check_suspicious_port_type:
  "fst (check_suspicious_port c w) = Some e \<Longrightarrow> event_type e = Some ''network_anomaly''"
  by (auto simp add: check_suspicious_port_def split: option.splits prod.splits if_splits)

lemma check_suspicious_port_remote:
  assumes "raddr c = Some ra" and "port ra \<in> SUSPICIOUS_PORTS"
  shows "\<exists>e. fst (check_suspicious_port c w) = Some e \<and> severity e = Some ''high''
     \<and> threat_score e = Some (lit (8 / 10)) \<and> destination_ip e = Some (ip ra)"
  using assms by (simp add: check_suspicious_port_def split: prod.splits)

lemma check_suspicious_port_local:
  assumes "laddr c = Some la" and "port la \<in> SUSPICIOUS_PORTS" and "\<not> remote_suspicious c"
  shows "\<exists>e. fst (check_suspicious_port c w) = Some e \<and> severity e = Some ''critical''
     \<and> threat_score e = Some (lit (85 / 100)) \<and> source_ip e = Some (ip la)"
  using assms
  by (auto simp add: check_suspicious_port_def remote_suspicious_def split: prod.splits option.splits)

lemma check_suspicious_port_none:
  "fst (check_suspicious_port c w) = None \<longleftrightarrow> \<not> remote_suspicious c \<and> \<not> local_suspicious c"
  by (auto simp add: check_suspicious_port_def remote_suspicious_def local_suspicious_def
      split: prod.splits option.splits)

lemma network_loop_result:
  "\<exists>new w'. network_loop conns events ports w = (events @ new, ports @ established_remote_ports conns, w')
     \<and> (\<forall>e\<in>set new. event_type e = Some ''network_anomaly'')
     \<and> length new = length (filter (\<lambda>c. status c = ''ESTABLISHED''
                                        \<and> (remote_suspicious c \<or> local_suspicious c)) conns)"
proof (induction conns arbitrary: events ports w)
  case Nil
  then show ?case by (simp add: established_remote_ports_def)
next
  case (Cons c conns)
  show ?case
  proof (cases "status c = ''ESTABLISHED''")
    case False
    with Cons.IH [of events ports w] show ?thesis
      by (simp add: established_remote_ports_def)
  next
    case True
    obtain se w1 where c: "check_suspicious_port c w = (se, w1)" by (cases "check_suspicious_port c w")
    define events1 where "events1 = (case se of None \<Rightarrow> events | Some e \<Rightarrow> events @ [e])"
    define ports1 where "ports1 = (case raddr c of None \<Rightarrow> ports | Some ra \<Rightarrow> ports @ [port ra])"
    from Cons.IH [of events1 ports1 w1] obtain new w' where
      IH: "network_loop conns events1 ports1 w1 = (events1 @ new, ports1 @ established_remote_ports conns, w')"
        "\<forall>e\<in>set new. event_type e = Some ''network_anomaly''"
        "length new = length (filter (\<lambda>c. status c = ''ESTABLISHED''
                                        \<and> (remote_suspicious c \<or> local_suspicious c)) conns)"
      by blast
    have step: "network_loop (c # conns) events ports w = network_loop conns events1 ports1 w1"
      using True c by (simp add: events1_def ports1_def)
    have p: "ports1 @ established_remote_ports conns = ports @ established_remote_ports (c # conns)"
      using True by (simp add: ports1_def established_remote_ports_def split: option.splits)
    have se_none: "se = None \<longleftrightarrow> \<not> remote_suspicious c \<and> \<not> local_suspicious c"
      using check_suspicious_port_none [of c w] c by simp
    show ?thesis
    proof (cases se)
      case None
      then have "events1 @ new = events @ new" by (simp add: events1_def)
      moreover from None se_none have "\<not> (remote_suspicious c \<or> local_suspicious c)" by simp
      ultimately show ?thesis using IH step p by (intro exI [of _ new] exI [of _ w']) simp
    next
      case (Some e)
      then have e: "events1 @ new = events @ (e # new)" by (simp add: events1_def)
      from Some c have "event_type e = Some ''network_anomaly''"
        using check_suspicious_port_type [of c w e] by simp
      moreover from Some se_none have "remote_suspicious c \<or> local_suspicious c" by simp
      ultimately show ?thesis using IH step p e True
        by (intro exI [of _ "e # new"] exI [of _ w']) simp
    qed
  qed
qed

lemma collect_port_scan_count:
  "\<exists>evs w'. NetworkCollector_collect (Inr conns) w = (Inr evs, w')
     \<and> length (filter (\<lambda>e. event_type e = Some ''port_scan'') evs) =
         (if 20 \<le> length (established_remote_ports conns)
             \<and> 20 \<le> card (set (established_remote_ports conns)) then 1 else 0)
     \<and> length (filter (\<lambda>e. event_type e = Some ''network_anomaly'') evs) =
         length (filter (\<lambda>c. status c = ''ESTABLISHED''
                              \<and> (remote_suspicious c \<or> local_suspicious c)) conns)"
proof -
  from network_loop_result [of conns "[]" "[]" w] obtain new w1 where
    nl: "network_loop conns [] [] w = (new, established_remote_ports conns, w1)"
      "\<forall>e\<in>set new. event_type e = Some ''network_anomaly''"
      "length new = length (filter (\<lambda>c. status c = ''ESTABLISHED''
                                        \<and> (remote_suspicious c \<or> local_suspicious c)) conns)"
    by auto
  define ps where "ps = established_remote_ports conns"
  obtain sc w2 where sc: "check_port_scan ps w1 = (sc, w2)" by (cases "check_port_scan ps w1")
  have f1: "filter (\<lambda>e. event_type e = Some ''port_scan'') new = []"
    using nl(2) by (auto simp add: filter_empty_conv)
  have f2: "filter (\<lambda>e. event_type e = Some ''network_anomaly'') new = new"
    using nl(2) by (auto simp add: filter_id_conv)
  have res: "NetworkCollector_collect (Inr conns) w =
      (Inr (case sc of None \<Rightarrow> new | Some e \<Rightarrow> new @ [e]), w2)"
    using nl(1) sc by (simp add: NetworkCollector_collect_def ps_def)
  show ?thesis
  proof (cases sc)
    case None
    with sc check_port_scan_fires [of ps w1] have "\<not> (20 \<le> length ps \<and> 20 \<le> card (set ps))"
      by simp
    with None res f1 f2 nl(3) show ?thesis by (simp add: ps_def)
  next
    case (Some e)
    with sc check_port_scan_fires [of ps w1] have c: "20 \<le> length ps \<and> 20 \<le> card (set ps)"
      by simp
    from Some sc check_port_scan_finding [of ps w1 e] have "event_type e = Some ''port_scan''"
      by simp
    with Some res f1 f2 nl(3) c show ?thesis by (simp add: ps_def)
  qed
qed

lemma example_ports_19_of_25_counts:
  "length example_ports_19_of_25 = 25" "card (set example_ports_19_of_25) = 19"
  unfolding example_ports_19_of_25_def List.card_set by simp_all

lemma example_ports_20_counts:
  "length example_ports_20 = 20" "card (set example_ports_20) = 20"
  unfolding example_ports_20_def List.card_set by simp_all

lemma example_conn_collect:
  "map severity (projr (fst (NetworkCollector_collect (Inr [example_conn]) example_world)))
     = [Some ''high'']"
  "map threat_score (projr (fst (NetworkCollector_collect (Inr [example_conn]) example_world)))
     = [Some (lit (8 / 10))]"
  by (simp_all add: NetworkCollector_collect_def example_conn_def check_suspicious_port_def
      SUSPICIOUS_PORTS_def check_port_scan_def generate_id_def now_utc_isoformat_def logger_def
      split: prod.splits)

text \<open>
  C5. The port-scan check emits a finding exactly when the list of remote ports has at
  least 20 entries and at least 20 distinct values. The finding is of kind port_scan,
  severity high, score 0.7, and its evidence carries the number of distinct ports and the
  number of connections. One poll of the collector yields exactly one port-scan finding
  when the remote ports of its established connections meet the condition, and none
  otherwise; 25 connections over 19 distinct ports, or fewer than 20 connections, yield
  none.
\<close>

theorem port_scan_fires_iff_twenty_distinct:
  "(\<forall>(ports :: int list) w. fst (check_port_scan ports w) \<noteq> None
        \<longleftrightarrow> 20 \<le> length ports \<and> 20 \<le> card (set ports))
   \<and> (\<forall>(ports :: int list) w e. fst (check_port_scan ports w) = Some e \<longrightarrow>
          event_type e = Some ''port_scan'' \<and> severity e = Some ''high''
          \<and> threat_score e = Some (lit (7 / 10))
          \<and> raw_data e = Some (RawDict [(''unique_ports'', JInt (int (card (set ports)))),
                                        (''total_connections'', JInt (int (length ports)))]))
   \<and> (\<forall>conns w. \<exists>evs w'.
          NetworkCollector_collect (Inr conns) w = (Inr evs, w')
          \<and> length (filter (\<lambda>e. event_type e = Some ''port_scan'') evs) =
              (if 20 \<le> length (established_remote_ports conns)
                  \<and> 20 \<le> card (set (established_remote_ports conns)) then 1 else 0))
   \<and> (\<forall>(ports :: int list) w. length ports = 25 \<and> card (set ports) = 19 \<longrightarrow>
          fst (check_port_scan ports w) = None)
   \<and> (\<forall>(ports :: int list) w. length ports < 20 \<longrightarrow> fst (check_port_scan ports w) = None)"
proof (intro conjI allI impI)
  fix ports :: "int list" and w
  show "fst (check_port_scan ports w) \<noteq> None \<longleftrightarrow> 20 \<le> length ports \<and> 20 \<le> card (set ports)"
    by (rule check_port_scan_fires)
next
  fix ports :: "int list" and w e
  assume "fst (check_port_scan ports w) = Some e"
  from check_port_scan_finding [OF this]
  show "event_type e = Some ''port_scan''" "severity e = Some ''high''"
    "threat_score e = Some (lit (7 / 10))"
    "raw_data e = Some (RawDict [(''unique_ports'', JInt (int (card (set ports)))),
                                 (''total_connections'', JInt (int (length ports)))])"
    by simp_all
next
  fix conns w
  from collect_port_scan_count [of conns w]
  show "\<exists>evs w'.
          NetworkCollector_collect (Inr conns) w = (Inr evs, w')
          \<and> length (filter (\<lambda>e. event_type e = Some ''port_scan'') evs) =
              (if 20 \<le> length (established_remote_ports conns)
                  \<and> 20 \<le> card (set (established_remote_ports conns)) then 1 else 0)"
    by blast
next
  fix ports :: "int list" and w
  assume "length ports = 25 \<and> card (set ports) = 19"
  then show "fst (check_port_scan ports w) = None"
    using check_port_scan_fires [of ports w] by simp
next
  fix ports :: "int list" and w
  assume "length ports < 20"
  then show "fst (check_port_scan ports w) = None"
    using check_port_scan_fires [of ports w] by simp
qed

theorem port_scan_fires_iff_twenty_distinct_witness:
  "length example_ports_19_of_25 = 25 \<and> card (set example_ports_19_of_25) = 19
   \<and> fst (check_port_scan example_ports_19_of_25 example_world) = None
   \<and> length ([] :: int list) < 20
   \<and> fst (check_port_scan [] example_world) = None
   \<and> length example_ports_20 = 20 \<and> card (set example_ports_20) = 20
   \<and> map threat_score (case_option [] (\<lambda>e. [e]) (fst (check_port_scan example_ports_20 example_world)))
       = [Some (lit (7 / 10))]
   \<and> map raw_data (case_option [] (\<lambda>e. [e]) (fst (check_port_scan example_ports_20 example_world)))
       = [Some (RawDict [(''unique_ports'', JInt 20), (''total_connections'', JInt 20)])]"
proof -
  note t = port_scan_fires_iff_twenty_distinct
  have a: "length example_ports_19_of_25 = 25 \<and> card (set example_ports_19_of_25) = 19"
    by (simp add: example_ports_19_of_25_counts)
  from t have "\<forall>(ports :: int list) w. length ports = 25 \<and> card (set ports) = 19 \<longrightarrow>
          fst (check_port_scan ports w) = None" by (elim conjE)
  from this [rule_format, OF a, of example_world]
  have 1: "fst (check_port_scan example_ports_19_of_25 example_world) = None" .
  from t have "\<forall>(ports :: int list) w. length ports < 20 \<longrightarrow> fst (check_port_scan ports w) = None"
    by (elim conjE)
  from this [rule_format, of "[]" example_world]
  have 2: "fst (check_port_scan [] example_world) = None" by simp
  from t have "\<forall>(ports :: int list) w. fst (check_port_scan ports w) \<noteq> None
        \<longleftrightarrow> 20 \<le> length ports \<and> 20 \<le> card (set ports)" by (elim conjE)
  from this [rule_format, of example_ports_20 example_world]
  obtain e where e: "fst (check_port_scan example_ports_20 example_world) = Some e"
    by (auto simp add: example_ports_20_counts)
  from t have "\<forall>(ports :: int list) w e. fst (check_port_scan ports w) = Some e \<longrightarrow>
          event_type e = Some ''port_scan'' \<and> severity e = Some ''high''
          \<and> threat_score e = Some (lit (7 / 10))
          \<and> raw_data e = Some (RawDict [(''unique_ports'', JInt (int (card (set ports)))),
                                        (''total_connections'', JInt (int (length ports)))])"
    by (elim conjE)
  from this [rule_format, OF e]
  have 3: "threat_score e = Some (lit (7 / 10))"
    "raw_data e = Some (RawDict [(''unique_ports'', JInt 20), (''total_connections'', JInt 20)])"
    by (simp_all add: example_ports_20_counts)
  show ?thesis using a 1 2 3 e by (simp add: example_ports_20_counts)
qed

text \<open>
  C6, as amended. For a connection whose remote port is in the suspicious set the check
  yields a finding of severity high with score 0.8. For a connection whose local port is
  in the set and whose remote port is not (or is absent) it yields a finding of severity
  critical with score 0.85. It yields nothing when neither port is in the set. One poll
  yields exactly one such finding for each established connection that has a suspicious
  remote or local port: never two for one connection.
\<close>

theorem suspicious_port_one_finding_remote_first:
  "(\<forall>(c :: sconn) w ra. raddr c = Some ra \<and> port ra \<in> SUSPICIOUS_PORTS \<longrightarrow>
       (\<exists>e. fst (check_suspicious_port c w) = Some e \<and> severity e = Some ''high''
             \<and> threat_score e = Some (lit (8 / 10))))
   \<and> (\<forall>(c :: sconn) w la. laddr c = Some la \<and> port la \<in> SUSPICIOUS_PORTS \<and> \<not> remote_suspicious c \<longrightarrow>
       (\<exists>e. fst (check_suspicious_port c w) = Some e \<and> severity e = Some ''critical''
             \<and> threat_score e = Some (lit (85 / 100))))
   \<and> (\<forall>(c :: sconn) w. fst (check_suspicious_port c w) = None
         \<longleftrightarrow> \<not> remote_suspicious c \<and> \<not> local_suspicious c)
   \<and> (\<forall>conns w. \<exists>evs w'.
         NetworkCollector_collect (Inr conns) w = (Inr evs, w')
         \<and> length (filter (\<lambda>e. event_type e = Some ''network_anomaly'') evs) =
             length (filter (\<lambda>c. status c = ''ESTABLISHED''
                                  \<and> (remote_suspicious c \<or> local_suspicious c)) conns))"
proof (intro conjI allI impI)
  fix c :: sconn and w ra
  assume "raddr c = Some ra \<and> port ra \<in> SUSPICIOUS_PORTS"
  then show "\<exists>e. fst (check_suspicious_port c w) = Some e \<and> severity e = Some ''high''
             \<and> threat_score e = Some (lit (8 / 10))"
    using check_suspicious_port_remote [of c ra w] by blast
next
  fix c :: sconn and w la
  assume "laddr c = Some la \<and> port la \<in> SUSPICIOUS_PORTS \<and> \<not> remote_suspicious c"
  then show "\<exists>e. fst (check_suspicious_port c w) = Some e \<and> severity e = Some ''critical''
             \<and> threat_score e = Some (lit (85 / 100))"
    using check_suspicious_port_local [of c la w] by blast
next
  fix c :: sconn and w
  show "fst (check_suspicious_port c w) = None
         \<longleftrightarrow> \<not> remote_suspicious c \<and> \<not> local_suspicious c"
    by (rule check_suspicious_port_none)
next
  fix conns w
  from collect_port_scan_count [of conns w]
  show "\<exists>evs w'.
         NetworkCollector_collect (Inr conns) w = (Inr evs, w')
         \<and> length (filter (\<lambda>e. event_type e = Some ''network_anomaly'') evs) =
             length (filter (\<lambda>c. status c = ''ESTABLISHED''
                                  \<and> (remote_suspicious c \<or> local_suspicious c)) conns)"
    by blast
qed

theorem suspicious_port_one_finding_remote_first_witness:
  "raddr example_conn = Some \<lparr> ip = ''203.0.113.9'', port = 4444 \<rparr>
   \<and> port \<lparr> ip = ''203.0.113.9'', port = 4444 \<rparr> \<in> SUSPICIOUS_PORTS
   \<and> (\<exists>e. fst (check_suspicious_port example_conn example_world) = Some e
          \<and> severity e = Some ''high'' \<and> threat_score e = Some (lit (8 / 10)))
   \<and> laddr (example_conn\<lparr>raddr := None\<rparr>) = Some \<lparr> ip = ''10.0.0.5'', port = 5555 \<rparr>
   \<and> port \<lparr> ip = ''10.0.0.5'', port = 5555 \<rparr> \<in> SUSPICIOUS_PORTS
   \<and> \<not> remote_suspicious (example_conn\<lparr>raddr := None\<rparr>)
   \<and> (\<exists>e. fst (check_suspicious_port (example_conn\<lparr>raddr := None\<rparr>) example_world) = Some e
          \<and> severity e = Some ''critical'' \<and> threat_score e = Some (lit (85 / 100)))"
proof -
  note t = suspicious_port_one_finding_remote_first
  have h1: "raddr example_conn = Some \<lparr> ip = ''203.0.113.9'', port = 4444 \<rparr>
     \<and> port \<lparr> ip = ''203.0.113.9'', port = 4444 \<rparr> \<in> SUSPICIOUS_PORTS"
    by (simp add: example_conn_def SUSPICIOUS_PORTS_def)
  have h2: "laddr (example_conn\<lparr>raddr := None\<rparr>) = Some \<lparr> ip = ''10.0.0.5'', port = 5555 \<rparr>
     \<and> port \<lparr> ip = ''10.0.0.5'', port = 5555 \<rparr> \<in> SUSPICIOUS_PORTS
     \<and> \<not> remote_suspicious (example_conn\<lparr>raddr := None\<rparr>)"
    by (simp add: example_conn_def SUSPICIOUS_PORTS_def remote_suspicious_def)
  from t have "\<forall>(c :: sconn) w ra. raddr c = Some ra \<and> port ra \<in> SUSPICIOUS_PORTS \<longrightarrow>
       (\<exists>e. fst (check_suspicious_port c w) = Some e \<and> severity e = Some ''high''
             \<and> threat_score e = Some (lit (8 / 10)))" by (elim conjE)
  from this [rule_format, OF h1, of example_world]
  have 1: "\<exists>e. fst (check_suspicious_port example_conn example_world) = Some e
          \<and> severity e = Some ''high'' \<and> threat_score e = Some (lit (8 / 10))" .
  from t have "\<forall>(c :: sconn) w la. laddr c = Some la \<and> port la \<in> SUSPICIOUS_PORTS \<and> \<not> remote_suspicious c \<longrightarrow>
       (\<exists>e. fst (check_suspicious_port c w) = Some e \<and> severity e = Some ''critical''
             \<and> threat_score e = Some (lit (85 / 100)))" by (elim conjE)
  from this [rule_format, OF h2, of example_world]
  have 2: "\<exists>e. fst (check_suspicious_port (example_conn\<lparr>raddr := None\<rparr>) example_world) = Some e
          \<and> severity e = Some ''critical'' \<and> threat_score e = Some (lit (85 / 100))" .
  show ?thesis using h1 h2 1 2 by blast
qed

text \<open>
  The claim as it was written fails on an established connection whose remote port 4444
  and local port 5555 are both suspicious: the check returns at the remote port, and the
  poll yields the one finding of severity high.
\<close>

theorem two_findings_counterexample:
  "status example_conn = ''ESTABLISHED''
   \<and> raddr example_conn = Some \<lparr> ip = ''203.0.113.9'', port = 4444 \<rparr>
   \<and> laddr example_conn = Some \<lparr> ip = ''10.0.0.5'', port = 5555 \<rparr>
   \<and> 4444 \<in> SUSPICIOUS_PORTS \<and> 5555 \<in> SUSPICIOUS_PORTS
   \<and> map severity (projr (fst (NetworkCollector_collect (Inr [example_conn]) example_world)))
       = [Some ''high'']
   \<and> length (projr (fst (NetworkCollector_collect (Inr [example_conn]) example_world))) \<noteq> 2"
proof -
  have "length (map severity
      (projr (fst (NetworkCollector_collect (Inr [example_conn]) example_world)))) = 1"
    by (simp only: example_conn_collect) simp
  then have "length (projr (fst (NetworkCollector_collect (Inr [example_conn]) example_world))) \<noteq> 2"
    by simp
  then show ?thesis
    by (simp add: example_conn_collect) (simp add: example_conn_def SUSPICIOUS_PORTS_def)
qed

section \<open>Orchestrator\<close>

lemma SystemCollector_collect_world:
  "\<exists>m. SystemCollector_collect smp w =
     ([m], w\<lparr>uuid_drawn := Suc (uuid_drawn w), clock_reads := Suc (clock_reads w),
             logged := logged w @ [LogInfo ''CPU | RAM | Disk'']\<rparr>)"
  by (simp add: SystemCollector_collect_def generate_id_def now_utc_isoformat_def logger_def)

text \<open>
  C8, as amended. One cycle of the orchestrator for the system collector ends where the
  collector's \<open>collect\<close> ends: the batch of one metric record is neither counted nor passed
  to the analyzer (the only thing logged is the collector's own line), and it is not
  persisted either: the journal of commits and the three tables are as they were.
\<close>

theorem system_batch_bypasses_analyzer_and_is_dropped:
  "\<exists>m w1. SystemCollector_collect (sample h) w = ([m], w1)
     \<and> collect System h eng w = (Inr (MetricBatch [m]), eng, w1)
     \<and> run_collector_cycle System h (eng, w) = (eng, w1)
     \<and> journal w1 = journal w
     \<and> security_events w1 = security_events w
     \<and> alerts w1 = alerts w
     \<and> system_metrics w1 = system_metrics w
     \<and> logged w1 = logged w @ [LogInfo ''CPU | RAM | Disk'']"
proof -
  from SystemCollector_collect_world [of "sample h" w] obtain m where
    m: "SystemCollector_collect (sample h) w =
     ([m], w\<lparr>uuid_drawn := Suc (uuid_drawn w), clock_reads := Suc (clock_reads w),
             logged := logged w @ [LogInfo ''CPU | RAM | Disk'']\<rparr>)" by blast
  then show ?thesis
    by (simp add: collect_def run_collector_cycle_def)
qed

text \<open>
  The claim as it was written says that the batch is persisted as raw telemetry; after a
  cycle on an empty database the metrics table is still empty and no commit was made.
\<close>

theorem system_batch_persisted_counterexample:
  "length (fst (SystemCollector_collect (sample example_host) example_world)) = 1
   \<and> system_metrics (snd (run_collector_cycle System example_host (example_engine, example_world))) = []
   \<and> journal (snd (run_collector_cycle System example_host (example_engine, example_world))) = []"
  by (simp add: run_collector_cycle_def collect_def SystemCollector_collect_def generate_id_def
      now_utc_isoformat_def logger_def example_world_def)

end
